theory Spec2Isabelle
  imports Complex_Main "HOL-Library.Mapping"
begin

section \<open>Data model of quanto/tensor/qtensor.py\<close>

text \<open>
  The module builds on the host tensor library (torch) and on two sibling modules of the
  package (\<open>.core\<close> for \<open>absmax_scale\<close> and \<open>dtype_info\<close>, \<open>.qtype\<close> for the
  quantized type descriptor). A tensor is modelled by what the module reads from it: its
  shape, its strides, its row-major contents, its element type and its device.
\<close>

datatype device = CPU | CUDA nat

datatype dtype =
  Float64 | Float32 | Float16 | BFloat16 | Float8_e4m3fn | Float8_e5m2
  | Int8 | Int16 | Int32 | Int64 | UInt8

record 'e tensor =
  shape :: "nat list"
  stride :: "nat list"
  elems :: "'e list"
  dtype :: dtype
  device :: device

text \<open>Every raise of the module, and an error raised inside the host library.\<close>

datatype error =
  ValueError string
  | AssertionError
  | KeyError string
  | RuntimeError string

text \<open>
  The quantized type descriptor of \<open>.qtype\<close>: the module reads \<open>qtype.dtype\<close> and
  \<open>qtype.is_floating_point\<close>.
\<close>

record qtype =
  qname :: string
  is_floating_point :: bool
  bits :: nat
  qdtype :: dtype

text \<open>The result of \<open>dtype_info\<close>: the representable range of a storage type.\<close>

record 'e info =
  info_min :: 'e
  info_max :: 'e

text \<open>
  What the module takes from outside: \<open>absmax_scale\<close> and \<open>dtype_info\<close> of \<open>.core\<close>
  and the numeric operations of torch. Each torch operation may raise.
\<close>

record 'e env =
  absmax_scale :: "'e tensor \<Rightarrow> qtype \<Rightarrow> int option \<Rightarrow> error + 'e tensor"
  dtype_info :: "dtype \<Rightarrow> 'e info"
  torch_div :: "'e tensor \<Rightarrow> 'e tensor \<Rightarrow> error + 'e tensor"
  torch_mul :: "'e tensor \<Rightarrow> 'e tensor \<Rightarrow> error + 'e tensor"
  torch_round :: "'e tensor \<Rightarrow> error + 'e tensor"
  torch_clamp :: "'e tensor \<Rightarrow> 'e \<Rightarrow> 'e \<Rightarrow> error + 'e tensor"
  torch_to :: "'e tensor \<Rightarrow> dtype \<Rightarrow> error + 'e tensor"

text \<open>\<open>t.ndim\<close> and \<open>torch.squeeze(t)\<close>: squeezing drops every dimension of size 1.\<close>

definition ndim :: "'e tensor \<Rightarrow> nat" where
  "ndim t = length (shape t)"

definition squeeze :: "'e tensor \<Rightarrow> 'e tensor" where
  "squeeze t =
     t\<lparr>shape := filter (\<lambda>d. d \<noteq> 1) (shape t),
       stride := map snd (filter (\<lambda>(d, s). d \<noteq> 1) (zip (shape t) (stride t)))\<rparr>"

subsection \<open>QTensor\<close>

text \<open>
  \<open>QTensor.__new__\<close> makes the wrapper tensor: size and strides of \<open>data\<close>, dtype of
  \<open>scale\<close>, device of \<open>data\<close>. \<open>QTensor.__init__\<close> then sets \<open>_qtype\<close>, \<open>_axis\<close>,
  \<open>_data\<close> and \<open>_scale\<close>.
\<close>

record wrapper =
  w_size :: "nat list"
  w_strides :: "nat list"
  w_dtype :: dtype
  w_device :: device
  requires_grad :: bool

record 'e QTensor =
  outer :: wrapper
  q_qtype :: qtype
  q_axis :: "int option"
  q_data :: "'e tensor"
  q_scale :: "'e tensor"

definition QTensor_new :: "qtype \<Rightarrow> 'e tensor \<Rightarrow> 'e tensor \<Rightarrow> bool \<Rightarrow> error + wrapper" where
  "QTensor_new qt data scale rg =
     (if device data \<noteq> device scale then Inl AssertionError
      else Inr \<lparr>w_size = shape data, w_strides = stride data, w_dtype = dtype scale,
                w_device = device data, requires_grad = rg\<rparr>)"

text \<open>
  The loop \<open>for i in range(scale.ndim): if dims[i] != 1: self._axis = i\<close>, starting from
  \<open>self._axis = None\<close>.
\<close>

definition scan_axis :: "nat list \<Rightarrow> int option" where
  "scan_axis dims =
     fold (\<lambda>i axis. if dims ! i \<noteq> 1 then Some (int i) else axis) [0..<length dims] None"

definition multi_axis_msg :: string where
  "multi_axis_msg = ''QTensor cannot be quantized along multiple axis.''"

definition not_broadcastable_msg :: string where
  "not_broadcastable_msg =
     ''The QTensor scale must be broadcastable to the base (Tip: try to add missing dims of length zero).''"

definition QTensor_init ::
  "wrapper \<Rightarrow> qtype \<Rightarrow> 'e tensor \<Rightarrow> 'e tensor \<Rightarrow> error + 'e QTensor" where
  "QTensor_init self qt data scale =
     (if ndim scale > 0 then
        if ndim (squeeze scale) > 1 then Inl (ValueError multi_axis_msg)
        else if ndim scale \<noteq> ndim data then Inl (ValueError not_broadcastable_msg)
        else
          (let axis = scan_axis (shape scale) in
           if axis = None then
             Inr \<lparr>outer = self, q_qtype = qt, q_axis = None, q_data = data,
                  q_scale = squeeze scale\<rparr>
           else if axis = Some (int (ndim scale) - 1) then
             Inr \<lparr>outer = self, q_qtype = qt, q_axis = Some (- 1), q_data = data,
                  q_scale = scale\<rparr>
           else
             Inr \<lparr>outer = self, q_qtype = qt, q_axis = axis, q_data = data,
                  q_scale = scale\<rparr>)
      else
        Inr \<lparr>outer = self, q_qtype = qt, q_axis = None, q_data = data, q_scale = scale\<rparr>)"

text \<open>The call \<open>QTensor(qtype, data, scale, requires_grad)\<close>: \<open>__new__\<close>, then \<open>__init__\<close>.\<close>

definition QTensor_call ::
  "qtype \<Rightarrow> 'e tensor \<Rightarrow> 'e tensor \<Rightarrow> bool \<Rightarrow> error + 'e QTensor" where
  "QTensor_call qt data scale rg =
     (case QTensor_new qt data scale rg of
        Inl e \<Rightarrow> Inl e
      | Inr self \<Rightarrow> QTensor_init self qt data scale)"

text \<open>The property \<open>QTensor.axis\<close>.\<close>

definition axis :: "'e QTensor \<Rightarrow> int option" where
  "axis q = q_axis q"

subsection \<open>Quantizer\<close>

definition quantize_multi_axis_msg :: string where
  "quantize_multi_axis_msg = ''Quantizing along multiple axis is not supported''"

definition quantize_not_broadcastable_msg :: string where
  "quantize_not_broadcastable_msg =
     ''When quantizing per-axis, the scale must be broadcastable to the base (Tip: try to add missing dims of length zero).''"

text \<open>
  \<open>Quantizer.forward(ctx, base, qtype, scale)\<close>; \<open>scale=None\<close> is \<open>None\<close>. The context
  is not read.
\<close>

definition Quantizer_forward ::
  "'e env \<Rightarrow> 'e tensor \<Rightarrow> qtype \<Rightarrow> 'e tensor option \<Rightarrow> error + 'e QTensor" where
  "Quantizer_forward h base qt scale_arg =
     (let inf = dtype_info h (qdtype qt) in
      case (case scale_arg of
              None \<Rightarrow> absmax_scale h base qt None
            | Some s \<Rightarrow>
                if ndim s > 0 then
                  if ndim (squeeze s) > 1 then Inl (ValueError quantize_multi_axis_msg)
                  else if ndim s \<noteq> ndim base then Inl (ValueError quantize_not_broadcastable_msg)
                  else Inr s
                else Inr s) of
        Inl e \<Rightarrow> Inl e
      | Inr scale \<Rightarrow>
          (case torch_div h base scale of
             Inl e \<Rightarrow> Inl e
           | Inr data \<Rightarrow>
               (case (if \<not> is_floating_point qt then torch_round h data else Inr data) of
                  Inl e \<Rightarrow> Inl e
                | Inr data \<Rightarrow>
                    (case torch_clamp h data (info_min inf) (info_max inf) of
                       Inl e \<Rightarrow> Inl e
                     | Inr data \<Rightarrow>
                         (case torch_to h data (qdtype qt) of
                            Inl e \<Rightarrow> Inl e
                          | Inr data \<Rightarrow> QTensor_call qt data scale False)))))"

text \<open>\<open>Quantizer.backward(ctx, gO)\<close> returns \<open>gO, None, None\<close>.\<close>

definition Quantizer_backward :: "'c \<Rightarrow> 'g \<Rightarrow> 'g \<times> 'g option \<times> 'g option" where
  "Quantizer_backward ctx gO = (gO, None, None)"

subsection \<open>Dequantizer\<close>

definition Dequantizer_forward :: "'e env \<Rightarrow> 'e QTensor \<Rightarrow> error + 'e tensor" where
  "Dequantizer_forward h t =
     (if is_floating_point (q_qtype t) then
        (case torch_to h (q_data t) (dtype (q_scale t)) of
           Inl e \<Rightarrow> Inl e
         | Inr d \<Rightarrow> torch_mul h (q_scale t) d)
      else torch_mul h (q_scale t) (q_data t))"

definition Dequantizer_backward :: "'c \<Rightarrow> 'g \<Rightarrow> 'g" where
  "Dequantizer_backward ctx gO = gO"

text \<open>\<open>QTensor.quantize\<close> and \<open>QTensor.dequantize\<close> apply the two functions.\<close>

definition quantize ::
  "'e env \<Rightarrow> 'e tensor \<Rightarrow> qtype \<Rightarrow> 'e tensor option \<Rightarrow> error + 'e QTensor" where
  "quantize h base qt scale_arg = Quantizer_forward h base qt scale_arg"

definition dequantize :: "'e env \<Rightarrow> 'e QTensor \<Rightarrow> error + 'e tensor" where
  "dequantize h self = Dequantizer_forward h self"

subsection \<open>Flattening and unflattening\<close>

text \<open>
  \<open>__tensor_flatten__\<close> returns the names of the inner tensors and the metadata
  dictionary. The host reads each named attribute into a dictionary
  (\<open>inner_tensors_of\<close>) before it calls \<open>__tensor_unflatten__\<close>.
\<close>

definition tensor_flatten :: "'e QTensor \<Rightarrow> string list \<times> (string, qtype) mapping" where
  "tensor_flatten self =
     ([''_data'', ''_scale''], Mapping.update ''qtype'' (q_qtype self) Mapping.empty)"

definition getattr_tensor :: "'e QTensor \<Rightarrow> string \<Rightarrow> 'e tensor option" where
  "getattr_tensor self name =
     (if name = ''_data'' then Some (q_data self)
      else if name = ''_scale'' then Some (q_scale self)
      else None)"

fun inner_tensors_of :: "'e QTensor \<Rightarrow> string list \<Rightarrow> (string, 'e tensor) mapping" where
  "inner_tensors_of self [] = Mapping.empty"
| "inner_tensors_of self (name # names) =
     (case getattr_tensor self name of
        None \<Rightarrow> inner_tensors_of self names
      | Some t \<Rightarrow> Mapping.update name t (inner_tensors_of self names))"

definition tensor_unflatten ::
  "(string, 'e tensor) mapping \<Rightarrow> (string, qtype) mapping \<Rightarrow> nat list \<Rightarrow> nat list
     \<Rightarrow> error + 'e QTensor" where
  "tensor_unflatten inner_tensors meta outer_size outer_stride =
     (if Mapping.size inner_tensors \<noteq> 2 then Inl AssertionError
      else if Mapping.size meta \<noteq> 1 then Inl AssertionError
      else
        (case Mapping.lookup inner_tensors ''_data'' of
           None \<Rightarrow> Inl (KeyError ''_data'')
         | Some data \<Rightarrow>
             (case Mapping.lookup inner_tensors ''_scale'' of
                None \<Rightarrow> Inl (KeyError ''_scale'')
              | Some scale \<Rightarrow>
                  (case Mapping.lookup meta ''qtype'' of
                     None \<Rightarrow> Inl (KeyError ''qtype'')
                   | Some qt \<Rightarrow> QTensor_call qt data scale False))))"

subsection \<open>qfallback\<close>

text \<open>
  The argument tree of \<open>pytree\<close>: tuples, lists and dictionaries are nodes, everything else
  is a leaf. A leaf is a QTensor, a plain tensor or any other value.
\<close>

datatype 'l pytree =
  Leaf 'l
  | PTuple "'l pytree list"
  | PList "'l pytree list"
  | PDict "(string \<times> 'l pytree) list"

datatype ('e, 'o) arg = QT "'e QTensor" | Plain "'e tensor" | Other 'o

text \<open>
  \<open>pytree.tree_map_only(QTensor, fn, tree)\<close>: \<open>fn\<close> is applied to the leaves that are
  QTensors, in order; the first raise ends the traversal.
\<close>

fun tree_map_only ::
    "('e QTensor \<Rightarrow> error + 'e tensor) \<Rightarrow> ('e, 'o) arg pytree \<Rightarrow> error + ('e, 'o) arg pytree"
  and tree_map_list ::
    "('e QTensor \<Rightarrow> error + 'e tensor) \<Rightarrow> ('e, 'o) arg pytree list
       \<Rightarrow> error + ('e, 'o) arg pytree list"
  and tree_map_items ::
    "('e QTensor \<Rightarrow> error + 'e tensor) \<Rightarrow> (string \<times> ('e, 'o) arg pytree) list
       \<Rightarrow> error + (string \<times> ('e, 'o) arg pytree) list" where
  "tree_map_only f (Leaf (QT q)) =
     (case f q of Inl e \<Rightarrow> Inl e | Inr t \<Rightarrow> Inr (Leaf (Plain t)))"
| "tree_map_only f (Leaf (Plain t)) = Inr (Leaf (Plain t))"
| "tree_map_only f (Leaf (Other v)) = Inr (Leaf (Other v))"
| "tree_map_only f (PTuple ts) =
     (case tree_map_list f ts of Inl e \<Rightarrow> Inl e | Inr us \<Rightarrow> Inr (PTuple us))"
| "tree_map_only f (PList ts) =
     (case tree_map_list f ts of Inl e \<Rightarrow> Inl e | Inr us \<Rightarrow> Inr (PList us))"
| "tree_map_only f (PDict kvs) =
     (case tree_map_items f kvs of Inl e \<Rightarrow> Inl e | Inr kus \<Rightarrow> Inr (PDict kus))"
| "tree_map_list f [] = Inr []"
| "tree_map_list f (t # ts) =
     (case tree_map_only f t of
        Inl e \<Rightarrow> Inl e
      | Inr u \<Rightarrow> (case tree_map_list f ts of Inl e \<Rightarrow> Inl e | Inr us \<Rightarrow> Inr (u # us)))"
| "tree_map_items f [] = Inr []"
| "tree_map_items f ((k, t) # kvs) =
     (case tree_map_only f t of
        Inl e \<Rightarrow> Inl e
      | Inr u \<Rightarrow>
          (case tree_map_items f kvs of Inl e \<Rightarrow> Inl e | Inr kus \<Rightarrow> Inr ((k, u) # kus)))"

text \<open>
  \<open>qfallback(callable, *args, **kwargs)\<close>: the pair \<open>(args, kwargs or {})\<close> is mapped as one
  tree, the tuple of positional arguments first, and the callable is applied to the two
  mapped components.
\<close>

definition qfallback ::
  "'e env \<Rightarrow>
   (('e, 'o) arg pytree list \<Rightarrow> (string \<times> ('e, 'o) arg pytree) list \<Rightarrow> error + 'r) \<Rightarrow>
   ('e, 'o) arg pytree list \<Rightarrow> (string \<times> ('e, 'o) arg pytree) list \<Rightarrow> error + 'r" where
  "qfallback h callable args kwargs =
     (case tree_map_only (\<lambda>x. dequantize h x) (PTuple [PTuple args, PDict kwargs]) of
        Inr (PTuple [PTuple args', PDict kwargs']) \<Rightarrow> callable args' kwargs'
      | Inr _ \<Rightarrow> Inl (RuntimeError ''tree_map_only changed the tree structure'')
      | Inl e \<Rightarrow> Inl e)"

section \<open>The operations as the specification words them\<close>

definition bind_err :: "error + 'a \<Rightarrow> ('a \<Rightarrow> error + 'b) \<Rightarrow> error + 'b" where
  "bind_err m f = (case m of Inl e \<Rightarrow> Inl e | Inr x \<Rightarrow> f x)"

text \<open>
  The forward transform on a resolved scale: divide, round for an integer type, clamp into
  the range of the storage type, cast, construct.
\<close>

definition quantize_transform_spec ::
  "'e env \<Rightarrow> 'e tensor \<Rightarrow> qtype \<Rightarrow> 'e tensor \<Rightarrow> error + 'e QTensor" where
  "quantize_transform_spec h base qt scale =
     bind_err (torch_div h base scale) (\<lambda>divided.
     bind_err (if is_floating_point qt then Inr divided else torch_round h divided) (\<lambda>rounded.
     bind_err (torch_clamp h rounded (info_min (dtype_info h (qdtype qt)))
                 (info_max (dtype_info h (qdtype qt)))) (\<lambda>clamped.
     bind_err (torch_to h clamped (qdtype qt)) (\<lambda>stored.
     QTensor_call qt stored scale False))))"

text \<open>A supplied scale passes the checks of quantize: a scalar, or one axis and the rank of base.\<close>

definition scale_accepted :: "'e tensor \<Rightarrow> 'e tensor \<Rightarrow> bool" where
  "scale_accepted base s \<longleftrightarrow> ndim s = 0 \<or> (ndim (squeeze s) \<le> 1 \<and> ndim s = ndim base)"

text \<open>
  The argument tree after the fallback: each QTensor leaf replaced by its dequantized
  tensor, every other leaf kept.
\<close>

definition replace_leaf :: "'e env \<Rightarrow> ('e, 'o) arg \<Rightarrow> ('e, 'o) arg" where
  "replace_leaf h x =
     (case x of
        QT q \<Rightarrow> (case dequantize h q of Inr t \<Rightarrow> Plain t | Inl e \<Rightarrow> QT q)
      | Plain t \<Rightarrow> Plain t
      | Other v \<Rightarrow> Other v)"

definition is_QT :: "('e, 'o) arg \<Rightarrow> bool" where
  "is_QT x = (case x of QT q \<Rightarrow> True | _ \<Rightarrow> False)"

text \<open>The axis held by the loop of \<open>__init__\<close> after its first \<open>n\<close> iterations.\<close>

definition scan_upto :: "nat list \<Rightarrow> nat \<Rightarrow> int option" where
  "scan_upto dims n =
     fold (\<lambda>i axis. if dims ! i \<noteq> 1 then Some (int i) else axis) [0..<n] None"



section \<open>An instance of the environment with exact arithmetic\<close>

text \<open>
  The theorems below hold for every environment. To run the definitions on concrete
  tensors, the environment is instantiated with rational elements and exact operations:
  broadcasting as torch aligns shapes (from the last dimension, a dimension of size 1
  stretched), rounding half to even, casts to an integer type truncating.
\<close>

definition contiguous_strides :: "nat list \<Rightarrow> nat list" where
  "contiguous_strides sh = map (\<lambda>i. prod_list (drop (Suc i) sh)) [0..<length sh]"

definition contiguous :: "nat list \<Rightarrow> 'e list \<Rightarrow> dtype \<Rightarrow> device \<Rightarrow> 'e tensor" where
  "contiguous sh xs dt dev =
     \<lparr>shape = sh, stride = contiguous_strides sh, elems = xs, dtype = dt, device = dev\<rparr>"

definition is_float_dtype :: "dtype \<Rightarrow> bool" where
  "is_float_dtype dt \<longleftrightarrow> dt \<in> {Float64, Float32, Float16, BFloat16, Float8_e4m3fn, Float8_e5m2}"

fun broadcast_rev :: "nat list \<Rightarrow> nat list \<Rightarrow> nat list option" where
  "broadcast_rev [] ys = Some ys"
| "broadcast_rev xs [] = Some xs"
| "broadcast_rev (x # xs) (y # ys) =
     (if x = y \<or> y = 1 then map_option ((#) x) (broadcast_rev xs ys)
      else if x = 1 then map_option ((#) y) (broadcast_rev xs ys)
      else None)"

definition broadcast_shapes :: "nat list \<Rightarrow> nat list \<Rightarrow> nat list option" where
  "broadcast_shapes a b = map_option rev (broadcast_rev (rev a) (rev b))"

text \<open>The contents of a tensor of shape \<open>src\<close> stretched to the shape \<open>tgt\<close> of the same rank.\<close>

fun expand :: "nat list \<Rightarrow> nat list \<Rightarrow> 'e list \<Rightarrow> 'e list" where
  "expand (d # ds) (t # ts) xs =
     concat (map (\<lambda>i. expand ds ts
                         (take (prod_list ds) (drop ((if d = 1 then 0 else i) * prod_list ds) xs)))
                 [0..<t])"
| "expand _ _ xs = xs"

definition expand_to :: "nat list \<Rightarrow> 'e tensor \<Rightarrow> 'e list" where
  "expand_to tgt t =
     expand (replicate (length tgt - length (shape t)) 1 @ shape t) tgt (elems t)"

definition exact_binop ::
  "(rat \<Rightarrow> rat \<Rightarrow> rat) \<Rightarrow> rat tensor \<Rightarrow> rat tensor \<Rightarrow> error + rat tensor" where
  "exact_binop f a b =
     (if device a \<noteq> device b \<and> \<not> (ndim a = 0 \<and> device a = CPU) \<and> \<not> (ndim b = 0 \<and> device b = CPU)
      then Inl (RuntimeError ''Expected all tensors to be on the same device'')
      else
        (case broadcast_shapes (shape a) (shape b) of
           None \<Rightarrow> Inl (RuntimeError ''The size of tensor a must match the size of tensor b'')
         | Some sh \<Rightarrow>
             Inr (contiguous sh (map2 f (expand_to sh a) (expand_to sh b))
                    (if is_float_dtype (dtype a) then dtype a
                     else if is_float_dtype (dtype b) then dtype b else Float32)
                    (if ndim a = 0 \<and> device a = CPU then device b else device a))))"

definition round_half_even :: "rat \<Rightarrow> rat" where
  "round_half_even x =
     (let f = \<lfloor>x\<rfloor>; r = x - of_int f in
      if r < 1 / 2 then of_int f
      else if 1 / 2 < r then of_int (f + 1)
      else if even f then of_int f else of_int (f + 1))"

definition truncate :: "rat \<Rightarrow> rat" where
  "truncate x = (if 0 \<le> x then of_int \<lfloor>x\<rfloor> else of_int \<lceil>x\<rceil>)"

text \<open>
  Modelled from the spec: \<open>dtype_info\<close> of \<open>.core\<close>, which is not among the sources
  (``giving representable [min, max]''); the ranges are those of the storage types.
\<close>

definition exact_dtype_info :: "dtype \<Rightarrow> rat info" where
  "exact_dtype_info dt =
     (case dt of
        Int8 \<Rightarrow> \<lparr>info_min = - 128, info_max = 127\<rparr>
      | Int16 \<Rightarrow> \<lparr>info_min = - 32768, info_max = 32767\<rparr>
      | Int32 \<Rightarrow> \<lparr>info_min = - 2147483648, info_max = 2147483647\<rparr>
      | Int64 \<Rightarrow> \<lparr>info_min = - (2 ^ 63), info_max = 2 ^ 63 - 1\<rparr>
      | UInt8 \<Rightarrow> \<lparr>info_min = 0, info_max = 255\<rparr>
      | Float8_e4m3fn \<Rightarrow> \<lparr>info_min = - 448, info_max = 448\<rparr>
      | Float8_e5m2 \<Rightarrow> \<lparr>info_min = - 57344, info_max = 57344\<rparr>
      | Float16 \<Rightarrow> \<lparr>info_min = - 65504, info_max = 65504\<rparr>
      | BFloat16 \<Rightarrow> \<lparr>info_min = - ((2 - 1 / 2 ^ 7) * 2 ^ 127), info_max = (2 - 1 / 2 ^ 7) * 2 ^ 127\<rparr>
      | Float32 \<Rightarrow> \<lparr>info_min = - ((2 - 1 / 2 ^ 23) * 2 ^ 127), info_max = (2 - 1 / 2 ^ 23) * 2 ^ 127\<rparr>
      | Float64 \<Rightarrow> \<lparr>info_min = - ((2 - 1 / 2 ^ 52) * 2 ^ 1023), info_max = (2 - 1 / 2 ^ 52) * 2 ^ 1023\<rparr>)"

text \<open>
  Modelled from the spec: \<open>absmax_scale\<close> of \<open>.core\<close>, which is not among the sources.
  Without an axis it is the scalar ``max(|base|) / qtype.max_representable_magnitude,
  clamped away from zero'' with the floor \<open>eps\<close>; with an axis \<open>|base|\<close> is reduced
  over all other dimensions, and the scale has size 1 in every dimension but the axis.
\<close>

definition exact_absmax_scale ::
  "rat \<Rightarrow> rat tensor \<Rightarrow> qtype \<Rightarrow> int option \<Rightarrow> error + rat tensor" where
  "exact_absmax_scale eps base qt ax =
     (let qmax = info_max (exact_dtype_info (qdtype qt)) in
      if elems base = [] then Inl (RuntimeError ''max(): Expected reduction dim to be specified for input.numel() == 0'')
      else
        (case ax of
           None \<Rightarrow>
             Inr (contiguous [] [max eps (fold max (map abs (elems base)) 0 / qmax)]
                    (dtype base) (device base))
         | Some a \<Rightarrow>
             if a < 0 \<or> int (ndim base) \<le> a then Inl (RuntimeError ''Dimension out of range'')
             else
               (let k = nat a; inner = prod_list (drop (Suc k) (shape base)) in
                Inr (contiguous
                       (map (\<lambda>i. if i = k then shape base ! i else 1) [0..<ndim base])
                       (map (\<lambda>j. max eps
                                (fold max
                                   (map (\<lambda>i. abs (elems base ! i))
                                      (filter (\<lambda>i. (i div inner) mod (shape base ! k) = j)
                                         [0..<length (elems base)])) 0 / qmax))
                          [0..<shape base ! k])
                       (dtype base) (device base)))))"

definition exact_env :: "rat \<Rightarrow> rat env" where
  "exact_env eps =
     \<lparr>absmax_scale = exact_absmax_scale eps,
      dtype_info = exact_dtype_info,
      torch_div = exact_binop (\<lambda>x y. x / y),
      torch_mul = exact_binop (\<lambda>x y. x * y),
      torch_round = (\<lambda>t. Inr (t\<lparr>elems := map round_half_even (elems t)\<rparr>)),
      torch_clamp = (\<lambda>t lo hi. Inr (t\<lparr>elems := map (\<lambda>x. min hi (max lo x)) (elems t)\<rparr>)),
      torch_to = (\<lambda>t dt. Inr (t\<lparr>elems := (if is_float_dtype dt then elems t
                                           else map truncate (elems t)),
                                 dtype := dt\<rparr>))\<rparr>"

text \<open>
  Modelled from the spec: the 8-bit signed integer type of \<open>.qtype\<close>, the default
  \<open>qtype\<close> of quantize; \<open>.qtype\<close> is not among the sources.
\<close>

definition qint8 :: qtype where
  "qint8 = \<lparr>qname = ''qint8'', is_floating_point = False, bits = 8, qdtype = Int8\<rparr>"

text \<open>Tensors of rank 4 for the examples: data of shape (2, 3, 1, 1) and three scales.\<close>

definition example_data :: "rat tensor" where
  "example_data = contiguous [2, 3, 1, 1] [10, - 4, 3, 0, 7, - 128] Int8 CPU"

definition example_scale_channel :: "rat tensor" where
  "example_scale_channel = contiguous [1, 3, 1, 1] [1 / 2, 1 / 4, 1 / 8] Float32 CPU"

definition example_scale_ones :: "rat tensor" where
  "example_scale_ones = contiguous [1, 1, 1, 1] [1 / 2] Float32 CPU"

definition example_data_last :: "rat tensor" where
  "example_data_last = contiguous [1, 1, 2, 3] [10, - 4, 3, 0, 7, - 128] Int8 CPU"

definition example_scale_last :: "rat tensor" where
  "example_scale_last = contiguous [1, 1, 1, 3] [1 / 2, 1 / 4, 1 / 8] Float32 CPU"

text \<open>A vector, a matrix-shaped scale, a scalar scale, and the same on another device.\<close>

definition example_vector :: "rat tensor" where
  "example_vector = contiguous [3] [- 5, 0, 5] Float32 CPU"

definition example_scale_matrix :: "rat tensor" where
  "example_scale_matrix = contiguous [2, 3] [1, 2, 3, 4, 5, 6] Float32 CPU"

definition example_scale_matrix_cuda :: "rat tensor" where
  "example_scale_matrix_cuda = contiguous [2, 3] [1, 2, 3, 4, 5, 6] Float32 (CUDA 0)"

definition example_scale_scalar :: "rat tensor" where
  "example_scale_scalar = contiguous [] [5 / 127] Float32 CPU"

definition example_env :: "rat env" where
  "example_env = exact_env (1 / 1000000)"

text \<open>
  Modelled from the spec: an 8-bit floating-point type of \<open>.qtype\<close> (``whether it is
  floating-point or integer ... its underlying storage element type'').
\<close>

definition qfloat8_e4m3fn :: qtype where
  "qfloat8_e4m3fn =
     \<lparr>qname = ''qfloat8_e4m3fn'', is_floating_point = True, bits = 8, qdtype = Float8_e4m3fn\<rparr>"

text \<open>
  The vector quantized to \<open>qint8\<close> with the scale 5/127 and to the 8-bit float type with
  the scale 5/448, and a QTensor whose scale of shape (1, 4) does not broadcast to its
  data of shape (2, 3).
\<close>

definition example_quantized :: "rat QTensor" where
  "example_quantized =
     \<lparr>outer = \<lparr>w_size = [3], w_strides = [1], w_dtype = Float32, w_device = CPU,
                requires_grad = False\<rparr>,
      q_qtype = qint8, q_axis = None,
      q_data = contiguous [3] [- 127, 0, 127] Int8 CPU,
      q_scale = example_scale_scalar\<rparr>"

definition example_quantized_float :: "rat QTensor" where
  "example_quantized_float =
     \<lparr>outer = \<lparr>w_size = [3], w_strides = [1], w_dtype = Float32, w_device = CPU,
                requires_grad = False\<rparr>,
      q_qtype = qfloat8_e4m3fn, q_axis = None,
      q_data = contiguous [3] [- 448, 0, 448] Float8_e4m3fn CPU,
      q_scale = contiguous [] [5 / 448] Float32 CPU\<rparr>"

definition example_data_matrix :: "rat tensor" where
  "example_data_matrix = contiguous [2, 3] [1, 2, 3, 4, 5, 6] Int8 CPU"

definition example_scale_row4 :: "rat tensor" where
  "example_scale_row4 = contiguous [1, 4] [1, 2, 3, 4] Float32 CPU"

definition example_quantized_mismatch :: "rat QTensor" where
  "example_quantized_mismatch =
     \<lparr>outer = \<lparr>w_size = [2, 3], w_strides = [3, 1], w_dtype = Float32, w_device = CPU,
                requires_grad = False\<rparr>,
      q_qtype = qint8, q_axis = Some (- 1),
      q_data = example_data_matrix,
      q_scale = example_scale_row4\<rparr>"

text \<open>
  An argument tree for the fallback: a QTensor, a list holding another value and a plain
  tensor, and a keyword argument holding a tuple with a QTensor; and a callable that
  returns the arguments it is given.
\<close>

definition example_args :: "(rat, nat) arg pytree list" where
  "example_args =
     [Leaf (QT example_quantized), PList [Leaf (Other 7), Leaf (Plain example_vector)]]"

definition example_kwargs :: "(string \<times> (rat, nat) arg pytree) list" where
  "example_kwargs = [(''other'', PTuple [Leaf (QT example_quantized_float)])]"

definition example_callable ::
  "(rat, nat) arg pytree list \<Rightarrow> (string \<times> (rat, nat) arg pytree) list \<Rightarrow>
     error + (rat, nat) arg pytree list \<times> (string \<times> (rat, nat) arg pytree) list" where
  "example_callable args kwargs = Inr (args, kwargs)"

text \<open>
  The round trip of C2: quantize with the absmax scale, then dequantize; both return, the
  stored scale is a scalar, and every element of the result is within half the scale of
  the element of base it came from.
\<close>

definition roundtrip_bound :: "rat env \<Rightarrow> rat tensor \<Rightarrow> qtype \<Rightarrow> bool" where
  "roundtrip_bound h t qt =
     (case quantize h t qt None of
        Inl e \<Rightarrow> False
      | Inr q \<Rightarrow>
          (case dequantize h q of
             Inl e \<Rightarrow> False
           | Inr r \<Rightarrow>
               (case elems (q_scale q) of
                  [sc] \<Rightarrow> list_all2 (\<lambda>y x. \<bar>y - x\<bar> \<le> sc / 2) (elems r) (elems t)
                | _ \<Rightarrow> False)))"

subsection \<open>An instance of the environment with binary32 arithmetic\<close>












text \<open>A qtype with an unsigned storage type, whose range holds no negative value.\<close>

definition example_unsigned_qtype :: qtype where
  "example_unsigned_qtype =
     \<lparr>qname = ''quint8'', is_floating_point = False, bits = 8, qdtype = UInt8\<rparr>"

section \<open>Shapes and the axis loop\<close>

lemma ndim_squeeze: "ndim (squeeze t) = length (filter (\<lambda>d. d \<noteq> 1) (shape t))"
  by (simp add: ndim_def squeeze_def)

lemma scan_upto_Suc:
  "scan_upto dims (Suc n) = (if dims ! n \<noteq> 1 then Some (int n) else scan_upto dims n)"
  by (simp add: scan_upto_def)

lemma scan_upto_None: "scan_upto dims n = None \<longleftrightarrow> (\<forall>i<n. dims ! i = 1)"
proof (induction n)
  case 0 show ?case by (simp add: scan_upto_def)
next
  case (Suc n) then show ?case by (auto simp: scan_upto_Suc less_Suc_eq)
qed

lemma scan_upto_Some:
  "scan_upto dims n = Some k \<longleftrightarrow>
     (\<exists>i<n. k = int i \<and> dims ! i \<noteq> 1 \<and> (\<forall>j<n. i < j \<longrightarrow> dims ! j = 1))"
proof (induction n)
  case 0 show ?case by (simp add: scan_upto_def)
next
  case (Suc n)
  show ?case
  proof (cases "dims ! n \<noteq> 1")
    case True
    have "(\<exists>i<Suc n. k = int i \<and> dims ! i \<noteq> 1 \<and> (\<forall>j<Suc n. i < j \<longrightarrow> dims ! j = 1)) \<longleftrightarrow> k = int n"
    proof
      assume "\<exists>i<Suc n. k = int i \<and> dims ! i \<noteq> 1 \<and> (\<forall>j<Suc n. i < j \<longrightarrow> dims ! j = 1)"
      then obtain i where i: "i < Suc n" "k = int i" "\<forall>j<Suc n. i < j \<longrightarrow> dims ! j = 1" by blast
      have "\<not> i < n" using i(3) True by auto
      with i(1) have "i = n" by simp
      with i(2) show "k = int n" by simp
    next
      assume "k = int n"
      with True show "\<exists>i<Suc n. k = int i \<and> dims ! i \<noteq> 1 \<and> (\<forall>j<Suc n. i < j \<longrightarrow> dims ! j = 1)"
        by auto
    qed
    with True show ?thesis by (auto simp: scan_upto_Suc)
  next
    case False
    have "(\<exists>i<Suc n. k = int i \<and> dims ! i \<noteq> 1 \<and> (\<forall>j<Suc n. i < j \<longrightarrow> dims ! j = 1)) \<longleftrightarrow>
          (\<exists>i<n. k = int i \<and> dims ! i \<noteq> 1 \<and> (\<forall>j<n. i < j \<longrightarrow> dims ! j = 1))"
      using False by (auto simp: less_Suc_eq)
    with False Suc show ?thesis by (simp add: scan_upto_Suc)
  qed
qed

lemma filter_le1_unique:
  "length (filter P xs) \<le> 1 \<Longrightarrow> i < length xs \<Longrightarrow> j < length xs \<Longrightarrow> P (xs ! i) \<Longrightarrow> P (xs ! j) \<Longrightarrow> i = j"
proof (induction xs arbitrary: i j)
  case Nil then show ?case by simp
next
  case (Cons x xs)
  show ?case
  proof (cases "P x")
    case True
    with Cons.prems(1) have empty: "filter P xs = []" by simp
    have "i = 0"
    proof (rule ccontr)
      assume "i \<noteq> 0"
      then obtain i' where "i = Suc i'" by (cases i) auto
      with Cons.prems(2,4) have "i' < length xs" "P (xs ! i')" by auto
      then have "xs ! i' \<in> set (filter P xs)" by auto
      with empty show False by simp
    qed
    moreover have "j = 0"
    proof (rule ccontr)
      assume "j \<noteq> 0"
      then obtain j' where "j = Suc j'" by (cases j) auto
      with Cons.prems(3,5) have "j' < length xs" "P (xs ! j')" by auto
      then have "xs ! j' \<in> set (filter P xs)" by auto
      with empty show False by simp
    qed
    ultimately show ?thesis by simp
  next
    case False
    with Cons.prems(4) obtain i' where i': "i = Suc i'" by (cases i) auto
    from False Cons.prems(5) obtain j' where j': "j = Suc j'" by (cases j) auto
    from False Cons.prems(1) have "length (filter P xs) \<le> 1" by simp
    then have "i' = j'" using Cons.prems(2-5) i' j' by (intro Cons.IH) auto
    with i' j' show ?thesis by simp
  qed
qed

lemma scan_axis_None: "scan_axis dims = None \<longleftrightarrow> (\<forall>i<length dims. dims ! i = 1)"
  using scan_upto_None [of dims "length dims"] by (simp add: scan_axis_def scan_upto_def)

lemma scan_axis_Some:
  "scan_axis dims = Some k \<longleftrightarrow>
     (\<exists>i<length dims. k = int i \<and> dims ! i \<noteq> 1 \<and> (\<forall>j<length dims. i < j \<longrightarrow> dims ! j = 1))"
  using scan_upto_Some [of dims "length dims" k] by (simp add: scan_axis_def scan_upto_def)

lemma filter_empty_all_one:
  "(\<forall>i<length dims. dims ! i = (1::nat)) \<Longrightarrow> filter (\<lambda>d. d \<noteq> 1) dims = []"
  by (auto simp: filter_empty_conv in_set_conv_nth)

lemma filter_nonempty: "i < length xs \<Longrightarrow> P (xs ! i) \<Longrightarrow> length (filter P xs) \<ge> 1"
proof -
  assume "i < length xs" "P (xs ! i)"
  then have "xs ! i \<in> set (filter P xs)" by auto
  then have "filter P xs \<noteq> []" by (metis empty_iff list.set(1))
  then show ?thesis by (cases "filter P xs") auto
qed

lemma one_axis_unique:
  assumes "ndim (squeeze t) \<le> 1" "i < ndim t" "j < ndim t" "shape t ! i \<noteq> 1" "shape t ! j \<noteq> 1"
  shows "i = j"
proof -
  from assms(1) have "length (filter (\<lambda>d. d \<noteq> 1) (shape t)) \<le> 1" by (simp only: ndim_squeeze)
  moreover from assms(2,3) have "i < length (shape t)" "j < length (shape t)"
    by (simp_all add: ndim_def)
  ultimately show ?thesis using assms(4,5) by (rule filter_le1_unique)
qed

lemma all_one_squeeze:
  assumes "\<forall>i<ndim t. shape t ! i = 1"
  shows "ndim (squeeze t) = 0"
proof -
  from assms have "\<forall>i<length (shape t). shape t ! i = 1" by (simp add: ndim_def)
  then have "filter (\<lambda>d. d \<noteq> 1) (shape t) = []" by (rule filter_empty_all_one)
  then show ?thesis by (simp add: ndim_squeeze)
qed

lemma QTensor_call_device:
  "device data \<noteq> device scale \<Longrightarrow> QTensor_call qt data scale rg = Inl AssertionError"
  by (simp add: QTensor_call_def QTensor_new_def)

lemma QTensor_call_same_device:
  "device data = device scale \<Longrightarrow>
   QTensor_call qt data scale rg =
     QTensor_init \<lparr>w_size = shape data, w_strides = stride data, w_dtype = dtype scale,
                   w_device = device data, requires_grad = rg\<rparr> qt data scale"
  by (simp add: QTensor_call_def QTensor_new_def)

lemma QTensor_init_scalar:
  "ndim scale = 0 \<Longrightarrow>
   QTensor_init self qt data scale =
     Inr \<lparr>outer = self, q_qtype = qt, q_axis = None, q_data = data, q_scale = scale\<rparr>"
  by (simp add: QTensor_init_def)

lemma QTensor_init_all_one:
  assumes "ndim scale > 0" "ndim scale = ndim data" "\<forall>i<ndim scale. shape scale ! i = 1"
  shows "QTensor_init self qt data scale =
     Inr \<lparr>outer = self, q_qtype = qt, q_axis = None, q_data = data, q_scale = squeeze scale\<rparr>"
proof -
  have sq: "ndim (squeeze scale) = 0" using assms(3) by (rule all_one_squeeze)
  from assms(3) have sc: "scan_axis (shape scale) = None"
    by (simp add: scan_axis_None ndim_def)
  have "\<not> 1 < ndim (squeeze scale)" using sq by simp
  moreover have "\<not> ndim scale \<noteq> ndim data" using assms(2) by simp
  ultimately show ?thesis unfolding QTensor_init_def Let_def sc
    using assms(1) by (simp only: if_True if_False refl)
qed

lemma QTensor_init_axis:
  assumes "ndim (squeeze scale) \<le> 1" "ndim scale = ndim data"
    and "i < ndim scale" "shape scale ! i \<noteq> 1"
  shows "QTensor_init self qt data scale =
     Inr \<lparr>outer = self, q_qtype = qt,
          q_axis = (if i = ndim scale - 1 then Some (- 1) else Some (int i)),
          q_data = data, q_scale = scale\<rparr>"
proof -
  have uniq: "\<And>j. j < ndim scale \<Longrightarrow> shape scale ! j \<noteq> 1 \<Longrightarrow> j = i"
    using assms(1,3,4) one_axis_unique [of scale _ i] by blast
  have "\<forall>j<length (shape scale). i < j \<longrightarrow> shape scale ! j = 1"
  proof (intro allI impI)
    fix j assume "j < length (shape scale)" "i < j"
    then show "shape scale ! j = 1" using uniq [of j] by (auto simp: ndim_def)
  qed
  moreover have "i < length (shape scale)" using assms(3) by (simp add: ndim_def)
  ultimately have "\<exists>k<length (shape scale). int i = int k \<and> shape scale ! k \<noteq> 1 \<and>
      (\<forall>j<length (shape scale). k < j \<longrightarrow> shape scale ! j = 1)"
    using assms(4) by blast
  then have sc: "scan_axis (shape scale) = Some (int i)" by (simp only: scan_axis_Some)
  have last: "(Some (int i) = Some (int (ndim scale) - 1)) = (i = ndim scale - 1)"
    using assms(3) by auto
  have g0: "0 < ndim scale" using assms(3) by simp
  have g1: "\<not> 1 < ndim (squeeze scale)" using assms(1) by simp
  have g2: "\<not> ndim scale \<noteq> ndim data" using assms(2) by simp
  have g3: "\<not> Some (int i) = None" by simp
  show ?thesis
  proof (cases "i = ndim scale - 1")
    case True
    with last have "Some (int i) = Some (int (ndim scale) - 1)" by simp
    then show ?thesis unfolding QTensor_init_def Let_def sc
      using g0 g1 g2 g3 True by (simp only: if_True if_False refl)
  next
    case False
    with last have "\<not> Some (int i) = Some (int (ndim scale) - 1)" by simp
    then show ?thesis unfolding QTensor_init_def Let_def sc
      using g0 g1 g2 g3 False by (simp only: if_True if_False refl)
  qed
qed

section \<open>Gradients\<close>

text \<open>
  C3. The gradient that reaches base through a quantize followed by a dequantize is the
  upstream gradient itself: the backward of the quantizer returns it unchanged for base
  and no gradient for qtype and scale, and the backward of the dequantizer returns it
  unchanged.
\<close>

theorem gradient_straight_through:
  "Quantizer_backward ctx gO = (gO, None, None) \<and>
   Dequantizer_backward ctx' gO = gO \<and>
   fst (Quantizer_backward ctx (Dequantizer_backward ctx' gO)) = gO"
  by (simp add: Quantizer_backward_def Dequantizer_backward_def)

section \<open>Unflattening\<close>

text \<open>
  C10. The reconstruction does not read the expected outer size and stride: for the same
  inner tensors and metadata, any two outer sizes and strides give the same result, so
  the expected outer shape is never compared with the shape of the data tensor.
\<close>

theorem unflatten_ignores_outer:
  "tensor_unflatten inner_tensors meta outer_size1 outer_stride1 =
   tensor_unflatten inner_tensors meta outer_size2 outer_stride2"
  by (simp add: tensor_unflatten_def)

lemmas example_defs =
  example_data_def example_scale_channel_def example_scale_ones_def example_data_last_def
  example_scale_last_def example_vector_def example_scale_matrix_def
  example_scale_matrix_cuda_def example_scale_scalar_def example_data_matrix_def
  example_scale_row4_def contiguous_def ndim_def squeeze_def

section \<open>Construction\<close>

text \<open>
  C4. When a QTensor is constructed with a non-scalar scale that passes validation, the
  unique dimension of scale whose size is not 1 becomes the axis; if every dimension has
  size 1 the scale is squeezed to rank 0 and the axis is none; an axis equal to
  rank - 1 is stored as -1.
\<close>

theorem axis_resolution:
  assumes "device data = device scale" and "ndim scale > 0"
    and "ndim (squeeze scale) \<le> 1" and "ndim scale = ndim data"
  shows "\<exists>q. QTensor_call qt data scale rg = Inr q \<and>
           ((\<forall>i<ndim scale. shape scale ! i = 1) \<longrightarrow>
              axis q = None \<and> q_scale q = squeeze scale \<and> ndim (q_scale q) = 0) \<and>
           (\<forall>i<ndim scale. shape scale ! i \<noteq> 1 \<longrightarrow>
              (\<forall>j<ndim scale. shape scale ! j \<noteq> 1 \<longrightarrow> j = i) \<and>
              q_scale q = scale \<and>
              axis q = (if i = ndim scale - 1 then Some (- 1) else Some (int i)))"
proof (cases "\<forall>i<ndim scale. shape scale ! i = 1")
  case True
  let ?w = "\<lparr>w_size = shape data, w_strides = stride data, w_dtype = dtype scale,
                   w_device = device data, requires_grad = rg\<rparr>"
  define q where "q = \<lparr>outer = ?w, q_qtype = qt, q_axis = None, q_data = data,
                       q_scale = squeeze scale\<rparr>"
  have "QTensor_init ?w qt data scale = Inr q"
    unfolding q_def using assms(2,4) True by (rule QTensor_init_all_one)
  then have call: "QTensor_call qt data scale rg = Inr q"
    by (simp only: QTensor_call_same_device [OF assms(1)])
  have "ndim (squeeze scale) = 0" using True by (rule all_one_squeeze)
  then have A: "axis q = None \<and> q_scale q = squeeze scale \<and> ndim (q_scale q) = 0"
    by (simp add: q_def axis_def)
  have B: "\<forall>i<ndim scale. shape scale ! i \<noteq> 1 \<longrightarrow>
              (\<forall>j<ndim scale. shape scale ! j \<noteq> 1 \<longrightarrow> j = i) \<and>
              q_scale q = scale \<and>
              axis q = (if i = ndim scale - 1 then Some (- 1) else Some (int i))"
    using True by blast
  from call A B show ?thesis by blast
next
  case False
  then obtain k where k: "k < ndim scale" "shape scale ! k \<noteq> 1" by blast
  have uniq: "\<And>j. j < ndim scale \<Longrightarrow> shape scale ! j \<noteq> 1 \<Longrightarrow> j = k"
    using assms(3) k one_axis_unique [of scale _ k] by blast
  let ?w = "\<lparr>w_size = shape data, w_strides = stride data, w_dtype = dtype scale,
                   w_device = device data, requires_grad = rg\<rparr>"
  define q where "q = \<lparr>outer = ?w, q_qtype = qt,
          q_axis = (if k = ndim scale - 1 then Some (- 1) else Some (int k)),
          q_data = data, q_scale = scale\<rparr>"
  have "QTensor_init ?w qt data scale = Inr q"
    unfolding q_def using assms(3,4) k by (rule QTensor_init_axis)
  then have call: "QTensor_call qt data scale rg = Inr q"
    by (simp only: QTensor_call_same_device [OF assms(1)])
  have ax: "axis q = (if k = ndim scale - 1 then Some (- 1) else Some (int k))"
    by (simp add: q_def axis_def)
  have sc: "q_scale q = scale" by (simp add: q_def)
  have A: "(\<forall>i<ndim scale. shape scale ! i = 1) \<longrightarrow>
              axis q = None \<and> q_scale q = squeeze scale \<and> ndim (q_scale q) = 0"
    using False by blast
  have B: "\<forall>i<ndim scale. shape scale ! i \<noteq> 1 \<longrightarrow>
              (\<forall>j<ndim scale. shape scale ! j \<noteq> 1 \<longrightarrow> j = i) \<and>
              q_scale q = scale \<and>
              axis q = (if i = ndim scale - 1 then Some (- 1) else Some (int i))"
  proof (intro allI impI)
    fix i assume i: "i < ndim scale" "shape scale ! i \<noteq> 1"
    then have ik: "i = k" by (rule uniq)
    have "\<forall>j<ndim scale. shape scale ! j \<noteq> 1 \<longrightarrow> j = i"
      using uniq ik by blast
    then show "(\<forall>j<ndim scale. shape scale ! j \<noteq> 1 \<longrightarrow> j = i) \<and>
              q_scale q = scale \<and>
              axis q = (if i = ndim scale - 1 then Some (- 1) else Some (int i))"
      using sc ax ik by simp
  qed
  from call A B show ?thesis by blast
qed

theorem axis_resolution_witness:
  "(device example_data = device example_scale_channel \<and> 0 < ndim example_scale_channel \<and>
    ndim (squeeze example_scale_channel) \<le> 1 \<and>
    ndim example_scale_channel = ndim example_data \<and>
    1 < ndim example_scale_channel \<and> shape example_scale_channel ! 1 \<noteq> 1 \<and>
    (\<exists>q. QTensor_call qint8 example_data example_scale_channel False = Inr q \<and>
         q_scale q = example_scale_channel \<and> axis q = Some 1)) \<and>
   (device example_data_last = device example_scale_last \<and> 0 < ndim example_scale_last \<and>
    ndim (squeeze example_scale_last) \<le> 1 \<and>
    ndim example_scale_last = ndim example_data_last \<and>
    3 < ndim example_scale_last \<and> shape example_scale_last ! 3 \<noteq> 1 \<and>
    (\<exists>q. QTensor_call qint8 example_data_last example_scale_last False = Inr q \<and>
         q_scale q = example_scale_last \<and> axis q = Some (- 1))) \<and>
   (device example_data = device example_scale_ones \<and> 0 < ndim example_scale_ones \<and>
    ndim (squeeze example_scale_ones) \<le> 1 \<and>
    ndim example_scale_ones = ndim example_data \<and>
    shape example_scale_ones = [1, 1, 1, 1] \<and>
    (\<exists>q. QTensor_call qint8 example_data example_scale_ones False = Inr q \<and>
         q_scale q = squeeze example_scale_ones \<and> ndim (q_scale q) = 0 \<and> axis q = None))"
proof -
  have c: "device example_data = device example_scale_channel" "0 < ndim example_scale_channel"
    "ndim (squeeze example_scale_channel) \<le> 1" "ndim example_scale_channel = ndim example_data"
    by (simp_all add: example_defs)
  have c1: "1 < ndim example_scale_channel" "shape example_scale_channel ! 1 \<noteq> 1"
    by (simp_all add: example_defs)
  have c2: "(1::nat) \<noteq> ndim example_scale_channel - 1" by (simp add: example_defs)
  from axis_resolution [OF c, of qint8 False] obtain q1 where
    q1: "QTensor_call qint8 example_data example_scale_channel False = Inr q1" and
    a1: "\<forall>i<ndim example_scale_channel. shape example_scale_channel ! i \<noteq> 1 \<longrightarrow>
              (\<forall>j<ndim example_scale_channel. shape example_scale_channel ! j \<noteq> 1 \<longrightarrow> j = i) \<and>
              q_scale q1 = example_scale_channel \<and>
              axis q1 = (if i = ndim example_scale_channel - 1 then Some (- 1) else Some (int i))"
    by (elim exE conjE)
  from a1 [rule_format, OF c1] c2
  have "q_scale q1 = example_scale_channel \<and> axis q1 = Some 1" by simp
  with q1 have C: "\<exists>q. QTensor_call qint8 example_data example_scale_channel False = Inr q \<and>
         q_scale q = example_scale_channel \<and> axis q = Some 1" by blast
  have l: "device example_data_last = device example_scale_last" "0 < ndim example_scale_last"
    "ndim (squeeze example_scale_last) \<le> 1" "ndim example_scale_last = ndim example_data_last"
    by (simp_all add: example_defs)
  have l1: "3 < ndim example_scale_last" "shape example_scale_last ! 3 \<noteq> 1"
    by (simp_all add: example_defs)
  have l2: "(3::nat) = ndim example_scale_last - 1" by (simp add: example_defs)
  from axis_resolution [OF l, of qint8 False] obtain q2 where
    q2: "QTensor_call qint8 example_data_last example_scale_last False = Inr q2" and
    a2: "\<forall>i<ndim example_scale_last. shape example_scale_last ! i \<noteq> 1 \<longrightarrow>
              (\<forall>j<ndim example_scale_last. shape example_scale_last ! j \<noteq> 1 \<longrightarrow> j = i) \<and>
              q_scale q2 = example_scale_last \<and>
              axis q2 = (if i = ndim example_scale_last - 1 then Some (- 1) else Some (int i))"
    by (elim exE conjE)
  from a2 [rule_format, OF l1] l2
  have "q_scale q2 = example_scale_last \<and> axis q2 = Some (- 1)" by simp
  with q2 have L: "\<exists>q. QTensor_call qint8 example_data_last example_scale_last False = Inr q \<and>
         q_scale q = example_scale_last \<and> axis q = Some (- 1)" by blast
  have u: "device example_data = device example_scale_ones" "0 < ndim example_scale_ones"
    "ndim (squeeze example_scale_ones) \<le> 1" "ndim example_scale_ones = ndim example_data"
    by (simp_all add: example_defs)
  have u1: "\<forall>i<ndim example_scale_ones. shape example_scale_ones ! i = 1"
    by (simp add: example_defs nth_Cons' less_Suc_eq)
  from axis_resolution [OF u, of qint8 False] obtain q3 where
    q3: "QTensor_call qint8 example_data example_scale_ones False = Inr q3" and
    a3: "(\<forall>i<ndim example_scale_ones. shape example_scale_ones ! i = 1) \<longrightarrow>
              axis q3 = None \<and> q_scale q3 = squeeze example_scale_ones \<and> ndim (q_scale q3) = 0"
    by (elim exE conjE)
  from mp [OF a3 u1] q3
  have U: "\<exists>q. QTensor_call qint8 example_data example_scale_ones False = Inr q \<and>
         q_scale q = squeeze example_scale_ones \<and> ndim (q_scale q) = 0 \<and> axis q = None"
    by blast
  have u2: "shape example_scale_ones = [1, 1, 1, 1]" by (simp add: example_defs)
  show ?thesis
    apply (intro conjI)
    apply (rule c c1 C l l1 L u u2 U)+
    done
qed

text \<open>
  C9. Every successful construction stores an axis that is none (and then a scale of rank
  0), or -1, or an index between 0 and rank - 2 of data; a nonnegative axis is never
  rank - 1; and when the axis is not none the stored scale has the rank of data and
  exactly one dimension of size other than 1.
\<close>

theorem construction_invariant:
  assumes "QTensor_call qt data scale rg = Inr q"
  shows "((axis q = None \<and> ndim (q_scale q) = 0) \<or> axis q = Some (- 1) \<or>
          (\<exists>i. axis q = Some i \<and> 0 \<le> i \<and> i \<le> int (ndim (q_data q)) - 2)) \<and>
         (\<forall>i. axis q = Some i \<longrightarrow> 0 \<le> i \<longrightarrow> i \<noteq> int (ndim (q_data q)) - 1) \<and>
         (axis q \<noteq> None \<longrightarrow>
            ndim (q_scale q) = ndim (q_data q) \<and>
            length (filter (\<lambda>d. d \<noteq> 1) (shape (q_scale q))) = 1)"
proof -
  have dev: "device data = device scale"
  proof (rule ccontr)
    assume "device data \<noteq> device scale"
    then have "QTensor_call qt data scale rg = Inl AssertionError" by (rule QTensor_call_device)
    with assms show False by simp
  qed
  let ?w = "\<lparr>w_size = shape data, w_strides = stride data, w_dtype = dtype scale,
                   w_device = device data, requires_grad = rg\<rparr>"
  from assms have init: "QTensor_init ?w qt data scale = Inr q"
    by (simp only: QTensor_call_same_device [OF dev])
  show ?thesis
  proof (cases "ndim scale = 0")
    case True
    from init have "q = \<lparr>outer = ?w, q_qtype = qt, q_axis = None, q_data = data, q_scale = scale\<rparr>"
      by (simp only: QTensor_init_scalar [OF True] sum.inject)
    then have "axis q = None" "ndim (q_scale q) = 0" using True by (simp_all add: axis_def)
    then show ?thesis by simp
  next
    case False
    have sq: "ndim (squeeze scale) \<le> 1"
    proof (rule ccontr)
      assume "\<not> ndim (squeeze scale) \<le> 1"
      with False have "QTensor_init ?w qt data scale = Inl (ValueError multi_axis_msg)"
        by (simp add: QTensor_init_def)
      with init show False by simp
    qed
    have rank: "ndim scale = ndim data"
    proof (rule ccontr)
      assume "ndim scale \<noteq> ndim data"
      with False sq have "QTensor_init ?w qt data scale = Inl (ValueError not_broadcastable_msg)"
        by (simp add: QTensor_init_def)
      with init show False by simp
    qed
    show ?thesis
    proof (cases "\<forall>i<ndim scale. shape scale ! i = 1")
      case True
      have "0 < ndim scale" using False by simp
      from QTensor_init_all_one [OF this rank True, of ?w qt] init
      have "q = \<lparr>outer = ?w, q_qtype = qt, q_axis = None, q_data = data,
                  q_scale = squeeze scale\<rparr>" by simp
      then have "axis q = None" "ndim (q_scale q) = ndim (squeeze scale)"
        by (simp_all add: axis_def)
      moreover have "ndim (squeeze scale) = 0" using True by (rule all_one_squeeze)
      ultimately show ?thesis by simp
    next
      case nonunit: False
      then obtain k where k: "k < ndim scale" "shape scale ! k \<noteq> 1" by blast
      then have "1 \<le> length (filter (\<lambda>d. d \<noteq> 1) (shape scale))"
        by (intro filter_nonempty [of k]) (auto simp: ndim_def)
      moreover from sq have "length (filter (\<lambda>d. d \<noteq> 1) (shape scale)) \<le> 1"
        by (simp only: ndim_squeeze)
      ultimately have one: "length (filter (\<lambda>d. d \<noteq> 1) (shape scale)) = 1" by simp
      from QTensor_init_axis [OF sq rank k, of ?w qt] init
      have q: "q = \<lparr>outer = ?w, q_qtype = qt,
          q_axis = (if k = ndim scale - 1 then Some (- 1) else Some (int k)),
          q_data = data, q_scale = scale\<rparr>" by simp
      have ax: "axis q = (if k = ndim scale - 1 then Some (- 1) else Some (int k))"
        and d: "q_data q = data" and s: "q_scale q = scale"
        by (simp_all add: q axis_def)
      have A: "axis q = Some (- 1) \<or>
          (\<exists>i. axis q = Some i \<and> 0 \<le> i \<and> i \<le> int (ndim (q_data q)) - 2)"
        using ax d k(1) rank by auto
      have B: "\<forall>i. axis q = Some i \<longrightarrow> 0 \<le> i \<longrightarrow> i \<noteq> int (ndim (q_data q)) - 1"
        using ax d k(1) rank by auto
      have C: "ndim (q_scale q) = ndim (q_data q) \<and>
            length (filter (\<lambda>d. d \<noteq> 1) (shape (q_scale q))) = 1"
        using d s rank one by simp
      from A B C show ?thesis by blast
    qed
  qed
qed

theorem construction_invariant_witness:
  "\<exists>q. QTensor_call qint8 example_data example_scale_channel False = Inr q \<and>
       axis q = Some 1 \<and> (0::int) \<le> 1 \<and> 1 \<le> int (ndim (q_data q)) - 2 \<and>
       (1::int) \<noteq> int (ndim (q_data q)) - 1 \<and> axis q \<noteq> None \<and>
       ndim (q_scale q) = ndim (q_data q) \<and>
       length (filter (\<lambda>d. d \<noteq> 1) (shape (q_scale q))) = 1"
proof -
  define q where "q = \<lparr>outer = \<lparr>w_size = [2, 3, 1, 1], w_strides = contiguous_strides [2, 3, 1, 1],
                  w_dtype = Float32, w_device = CPU, requires_grad = False\<rparr>,
        q_qtype = qint8, q_axis = Some 1, q_data = example_data,
        q_scale = example_scale_channel\<rparr>"
  have call: "QTensor_call qint8 example_data example_scale_channel False = Inr q"
    unfolding q_def
    by (simp add: QTensor_call_def QTensor_new_def QTensor_init_def scan_axis_def example_defs
        upt_conv_Cons)
  have ax: "axis q = Some 1" by (simp add: q_def axis_def)
  have rk: "ndim (q_data q) = 4" by (simp add: q_def example_defs)
  from construction_invariant [OF call] ax
  have "ndim (q_scale q) = ndim (q_data q) \<and>
       length (filter (\<lambda>d. d \<noteq> 1) (shape (q_scale q))) = 1"
    by simp
  with call ax rk show ?thesis by auto
qed

lemma squeeze_fields [simp]: "dtype (squeeze t) = dtype t" "device (squeeze t) = device t"
  by (simp_all add: squeeze_def)

lemma QTensor_call_cases:
  assumes "QTensor_call qt data scale rg = Inr q"
  obtains
    (scalar) "device data = device scale" "ndim scale = 0"
      "q = \<lparr>outer = \<lparr>w_size = shape data, w_strides = stride data, w_dtype = dtype scale,
                       w_device = device data, requires_grad = rg\<rparr>,
            q_qtype = qt, q_axis = None, q_data = data, q_scale = scale\<rparr>"
  | (ones) "device data = device scale" "0 < ndim scale" "ndim scale = ndim data"
      "ndim (squeeze scale) = 0"
      "q = \<lparr>outer = \<lparr>w_size = shape data, w_strides = stride data, w_dtype = dtype scale,
                       w_device = device data, requires_grad = rg\<rparr>,
            q_qtype = qt, q_axis = None, q_data = data, q_scale = squeeze scale\<rparr>"
  | (per_axis) k where "device data = device scale" "ndim (squeeze scale) \<le> 1"
      "ndim scale = ndim data" "k < ndim scale" "shape scale ! k \<noteq> 1"
      "q = \<lparr>outer = \<lparr>w_size = shape data, w_strides = stride data, w_dtype = dtype scale,
                       w_device = device data, requires_grad = rg\<rparr>,
            q_qtype = qt,
            q_axis = (if k = ndim scale - 1 then Some (- 1) else Some (int k)),
            q_data = data, q_scale = scale\<rparr>"
proof -
  have dev: "device data = device scale"
  proof (rule ccontr)
    assume "device data \<noteq> device scale"
    then have "QTensor_call qt data scale rg = Inl AssertionError" by (rule QTensor_call_device)
    with assms show False by simp
  qed
  let ?w = "\<lparr>w_size = shape data, w_strides = stride data, w_dtype = dtype scale,
                   w_device = device data, requires_grad = rg\<rparr>"
  from assms have init: "QTensor_init ?w qt data scale = Inr q"
    by (simp only: QTensor_call_same_device [OF dev])
  show thesis
  proof (cases "ndim scale = 0")
    case True
    from init have "q = \<lparr>outer = ?w, q_qtype = qt, q_axis = None, q_data = data, q_scale = scale\<rparr>"
      by (simp only: QTensor_init_scalar [OF True] sum.inject)
    with dev True show thesis by (rule scalar)
  next
    case False
    have sq: "ndim (squeeze scale) \<le> 1"
    proof (rule ccontr)
      assume "\<not> ndim (squeeze scale) \<le> 1"
      with False have "QTensor_init ?w qt data scale = Inl (ValueError multi_axis_msg)"
        by (simp add: QTensor_init_def)
      with init show False by simp
    qed
    have rank: "ndim scale = ndim data"
    proof (rule ccontr)
      assume "ndim scale \<noteq> ndim data"
      with False sq have "QTensor_init ?w qt data scale = Inl (ValueError not_broadcastable_msg)"
        by (simp add: QTensor_init_def)
      with init show False by simp
    qed
    have pos: "0 < ndim scale" using False by simp
    show thesis
    proof (cases "\<forall>i<ndim scale. shape scale ! i = 1")
      case True
      from QTensor_init_all_one [OF pos rank True, of ?w qt] init
      have "q = \<lparr>outer = ?w, q_qtype = qt, q_axis = None, q_data = data,
                  q_scale = squeeze scale\<rparr>" by simp
      moreover have "ndim (squeeze scale) = 0" using True by (rule all_one_squeeze)
      ultimately show thesis using dev pos rank by (intro ones)
    next
      case nonunit: False
      then obtain k where k: "k < ndim scale" "shape scale ! k \<noteq> 1" by blast
      from QTensor_init_axis [OF sq rank k, of ?w qt] init
      have "q = \<lparr>outer = ?w, q_qtype = qt,
          q_axis = (if k = ndim scale - 1 then Some (- 1) else Some (int k)),
          q_data = data, q_scale = scale\<rparr>" by simp
      with dev sq rank k show thesis by (intro per_axis)
    qed
  qed
qed

lemma QTensor_call_again:
  assumes "QTensor_call qt data scale rg = Inr q"
  shows "QTensor_call (q_qtype q) (q_data q) (q_scale q) rg' =
           Inr (q\<lparr>outer := (outer q)\<lparr>requires_grad := rg'\<rparr>\<rparr>)"
  using assms
proof (cases rule: QTensor_call_cases)
  case scalar
  have "QTensor_call qt data scale rg' =
      QTensor_init \<lparr>w_size = shape data, w_strides = stride data, w_dtype = dtype scale,
                   w_device = device data, requires_grad = rg'\<rparr> qt data scale"
    using scalar(1) by (rule QTensor_call_same_device)
  also have "\<dots> = Inr \<lparr>outer = \<lparr>w_size = shape data, w_strides = stride data, w_dtype = dtype scale,
                   w_device = device data, requires_grad = rg'\<rparr>,
            q_qtype = qt, q_axis = None, q_data = data, q_scale = scale\<rparr>"
    using scalar(2) by (rule QTensor_init_scalar)
  finally show ?thesis by (simp add: scalar(3))
next
  case ones
  have dev: "device data = device (squeeze scale)" using ones(1) by simp
  have "QTensor_call qt data (squeeze scale) rg' =
      QTensor_init \<lparr>w_size = shape data, w_strides = stride data, w_dtype = dtype (squeeze scale),
                   w_device = device data, requires_grad = rg'\<rparr> qt data (squeeze scale)"
    using dev by (rule QTensor_call_same_device)
  also have "\<dots> = Inr \<lparr>outer = \<lparr>w_size = shape data, w_strides = stride data,
                   w_dtype = dtype (squeeze scale),
                   w_device = device data, requires_grad = rg'\<rparr>,
            q_qtype = qt, q_axis = None, q_data = data, q_scale = squeeze scale\<rparr>"
    using ones(4) by (rule QTensor_init_scalar)
  finally show ?thesis by (simp add: ones(5))
next
  case (per_axis k)
  have "QTensor_call qt data scale rg' =
      QTensor_init \<lparr>w_size = shape data, w_strides = stride data, w_dtype = dtype scale,
                   w_device = device data, requires_grad = rg'\<rparr> qt data scale"
    using per_axis(1) by (rule QTensor_call_same_device)
  also have "\<dots> = Inr \<lparr>outer = \<lparr>w_size = shape data, w_strides = stride data, w_dtype = dtype scale,
                   w_device = device data, requires_grad = rg'\<rparr>,
            q_qtype = qt,
            q_axis = (if k = ndim scale - 1 then Some (- 1) else Some (int k)),
            q_data = data, q_scale = scale\<rparr>"
    using per_axis(2,3,4,5) by (rule QTensor_init_axis)
  finally show ?thesis by (simp add: per_axis(6))
qed

section \<open>Flattening and unflattening\<close>

lemma flatten_names: "fst (tensor_flatten q) = [''_data'', ''_scale'']"
  by (simp add: tensor_flatten_def)

lemma flatten_meta:
  "Mapping.size (snd (tensor_flatten q)) = 1"
  "Mapping.lookup (snd (tensor_flatten q)) ''qtype'' = Some (q_qtype q)"
  by (simp_all add: tensor_flatten_def Mapping.size_def)

lemma inner_tensors_flatten:
  "Mapping.size (inner_tensors_of q (fst (tensor_flatten q))) = 2"
  "Mapping.lookup (inner_tensors_of q (fst (tensor_flatten q))) ''_data'' = Some (q_data q)"
  "Mapping.lookup (inner_tensors_of q (fst (tensor_flatten q))) ''_scale'' = Some (q_scale q)"
  by (simp_all add: flatten_names getattr_tensor_def Mapping.size_def)

lemma unflatten_flatten:
  "tensor_unflatten (inner_tensors_of q (fst (tensor_flatten q))) (snd (tensor_flatten q))
      outer_size outer_stride =
   QTensor_call (q_qtype q) (q_data q) (q_scale q) False"
  by (simp add: tensor_unflatten_def inner_tensors_flatten flatten_meta)

text \<open>
  An expected outer size that is not the shape of the data is accepted: the wrapper takes
  its size from the data.
\<close>

lemma unflatten_outer_size_example:
  "tensor_unflatten (inner_tensors_of example_quantized (fst (tensor_flatten example_quantized)))
     (snd (tensor_flatten example_quantized)) [7, 7] [7, 1] = Inr example_quantized \<and>
   w_size (outer example_quantized) = shape (q_data example_quantized) \<and>
   shape (q_data example_quantized) \<noteq> [7, 7]"
proof -
  have "QTensor_call (q_qtype example_quantized) (q_data example_quantized)
          (q_scale example_quantized) False = Inr example_quantized"
    by code_simp
  then show ?thesis
    by (simp add: unflatten_flatten example_quantized_def contiguous_def)
qed

text \<open>
  C7. Flattening yields exactly two inner tensors (\<open>_data\<close> and \<open>_scale\<close>) and exactly
  one metadata entry (\<open>qtype\<close>); unflattening fails when the inner-tensor mapping does
  not hold exactly two entries or the metadata does not hold exactly one; and for a
  QTensor that a construction returned, unflattening what flattening gives
  reconstructs a QTensor with the same data, scale and qtype (and axis).
\<close>

theorem flatten_unflatten_roundtrip:
  "fst (tensor_flatten q) = [''_data'', ''_scale''] \<and>
   Mapping.size (inner_tensors_of q (fst (tensor_flatten q))) = 2 \<and>
   Mapping.keys (snd (tensor_flatten q)) = {''qtype''} \<and>
   Mapping.size (snd (tensor_flatten q)) = 1 \<and>
   (Mapping.size inner_tensors \<noteq> 2 \<or> Mapping.size meta \<noteq> 1 \<longrightarrow>
      tensor_unflatten inner_tensors meta outer_size outer_stride = Inl AssertionError) \<and>
   (QTensor_call qt data scale rg = Inr q \<longrightarrow>
      (\<exists>q'. tensor_unflatten (inner_tensors_of q (fst (tensor_flatten q)))
              (snd (tensor_flatten q)) outer_size outer_stride = Inr q' \<and>
            q_data q' = q_data q \<and> q_scale q' = q_scale q \<and> q_qtype q' = q_qtype q \<and>
            q_axis q' = q_axis q \<and>
            q' = q\<lparr>outer := (outer q)\<lparr>requires_grad := False\<rparr>\<rparr>))"
proof -
  have A: "Mapping.size inner_tensors \<noteq> 2 \<or> Mapping.size meta \<noteq> 1 \<longrightarrow>
      tensor_unflatten inner_tensors meta outer_size outer_stride = Inl AssertionError"
    by (auto simp: tensor_unflatten_def)
  have B: "QTensor_call qt data scale rg = Inr q \<longrightarrow>
      (\<exists>q'. tensor_unflatten (inner_tensors_of q (fst (tensor_flatten q)))
              (snd (tensor_flatten q)) outer_size outer_stride = Inr q' \<and>
            q_data q' = q_data q \<and> q_scale q' = q_scale q \<and> q_qtype q' = q_qtype q \<and>
            q_axis q' = q_axis q \<and>
            q' = q\<lparr>outer := (outer q)\<lparr>requires_grad := False\<rparr>\<rparr>)"
  proof
    assume "QTensor_call qt data scale rg = Inr q"
    then have "QTensor_call (q_qtype q) (q_data q) (q_scale q) False =
           Inr (q\<lparr>outer := (outer q)\<lparr>requires_grad := False\<rparr>\<rparr>)"
      by (rule QTensor_call_again)
    then show "\<exists>q'. tensor_unflatten (inner_tensors_of q (fst (tensor_flatten q)))
              (snd (tensor_flatten q)) outer_size outer_stride = Inr q' \<and>
            q_data q' = q_data q \<and> q_scale q' = q_scale q \<and> q_qtype q' = q_qtype q \<and>
            q_axis q' = q_axis q \<and>
            q' = q\<lparr>outer := (outer q)\<lparr>requires_grad := False\<rparr>\<rparr>"
      by (simp add: unflatten_flatten)
  qed
  have C: "Mapping.keys (snd (tensor_flatten q)) = {''qtype''}"
    by (simp add: tensor_flatten_def)
  show ?thesis
    apply (intro conjI)
    apply (rule flatten_names inner_tensors_flatten(1) C flatten_meta(1) A B)+
    done
qed

theorem flatten_unflatten_roundtrip_witness:
  "Mapping.size (Mapping.empty :: (string, rat tensor) mapping) \<noteq> 2 \<and>
   tensor_unflatten (Mapping.empty :: (string, rat tensor) mapping)
     (Mapping.update ''qtype'' qint8 Mapping.empty) [2, 3, 1, 1] [3, 1, 1, 1] =
     Inl AssertionError \<and>
   (\<exists>q. QTensor_call qint8 example_data example_scale_ones True = Inr q \<and>
        (\<exists>q'. tensor_unflatten (inner_tensors_of q (fst (tensor_flatten q)))
                (snd (tensor_flatten q)) [2, 3, 1, 1] [3, 1, 1, 1] = Inr q' \<and>
              q_data q' = example_data \<and> q_scale q' = squeeze example_scale_ones \<and>
              q_qtype q' = qint8 \<and> q_axis q' = None \<and> requires_grad (outer q') = False))"
proof -
  define q where "q = \<lparr>outer = \<lparr>w_size = [2, 3, 1, 1], w_strides = contiguous_strides [2, 3, 1, 1],
                  w_dtype = Float32, w_device = CPU, requires_grad = True\<rparr>,
        q_qtype = qint8, q_axis = None, q_data = example_data,
        q_scale = squeeze example_scale_ones\<rparr>"
  have call: "QTensor_call qint8 example_data example_scale_ones True = Inr q"
    unfolding q_def
    by (simp add: QTensor_call_def QTensor_new_def QTensor_init_def scan_axis_def example_defs
        upt_conv_Cons)
  have sz: "Mapping.size (Mapping.empty :: (string, rat tensor) mapping) \<noteq> 2" by simp
  note T = flatten_unflatten_roundtrip [where q = q
      and inner_tensors = "Mapping.empty :: (string, rat tensor) mapping"
      and meta = "Mapping.update ''qtype'' qint8 Mapping.empty"
      and outer_size = "[2, 3, 1, 1]" and outer_stride = "[3, 1, 1, 1]"
      and qt = qint8 and data = example_data and scale = example_scale_ones and rg = True]
  from T sz have A: "tensor_unflatten (Mapping.empty :: (string, rat tensor) mapping)
     (Mapping.update ''qtype'' qint8 Mapping.empty) [2, 3, 1, 1] [3, 1, 1, 1] =
     Inl AssertionError" by blast
  from T call obtain q' where
    q': "tensor_unflatten (inner_tensors_of q (fst (tensor_flatten q)))
                (snd (tensor_flatten q)) [2, 3, 1, 1] [3, 1, 1, 1] = Inr q'"
      "q_data q' = q_data q" "q_scale q' = q_scale q" "q_qtype q' = q_qtype q"
      "q_axis q' = q_axis q" "q' = q\<lparr>outer := (outer q)\<lparr>requires_grad := False\<rparr>\<rparr>"
    by blast
  have B: "q_data q' = example_data \<and> q_scale q' = squeeze example_scale_ones \<and>
              q_qtype q' = qint8 \<and> q_axis q' = None \<and> requires_grad (outer q') = False"
    using q'(2-6) by (simp add: q_def)
  from sz A call q'(1) B show ?thesis by blast
qed

section \<open>Rejection of invalid inputs\<close>

lemma ndim_squeeze_le: "ndim (squeeze t) \<le> ndim t"
  unfolding ndim_squeeze by (simp add: ndim_def)

lemma QTensor_init_multi_axis:
  assumes "1 < ndim (squeeze scale)"
  shows "QTensor_init self qt data scale = Inl (ValueError multi_axis_msg)"
proof -
  have "0 < ndim scale" using assms ndim_squeeze_le [of scale] by simp
  with assms show ?thesis by (simp add: QTensor_init_def)
qed

lemma QTensor_init_not_broadcastable:
  assumes "0 < ndim scale" "ndim (squeeze scale) \<le> 1" "ndim scale \<noteq> ndim data"
  shows "QTensor_init self qt data scale = Inl (ValueError not_broadcastable_msg)"
  using assms by (simp add: QTensor_init_def)

lemma quantize_multi_axis:
  assumes "1 < ndim (squeeze s)"
  shows "quantize h base qt (Some s) = Inl (ValueError quantize_multi_axis_msg)"
proof -
  have "0 < ndim s" using assms ndim_squeeze_le [of s] by simp
  with assms show ?thesis by (simp add: quantize_def Quantizer_forward_def)
qed

lemma quantize_not_broadcastable:
  assumes "0 < ndim s" "ndim (squeeze s) \<le> 1" "ndim s \<noteq> ndim base"
  shows "quantize h base qt (Some s) = Inl (ValueError quantize_not_broadcastable_msg)"
  using assms by (simp add: quantize_def Quantizer_forward_def)

text \<open>
  C5, as the code has it. The checks run in order, and the first that fails decides the
  error. At construction the device assertion comes first; on one device a scale with two
  or more non-unit dimensions raises the multi-axis error; a non-scalar scale with at
  most one non-unit dimension whose rank differs from the rank of data raises the
  not-broadcastable error. In quantize with a supplied scale the same two shape checks
  run, in the same order, before anything is computed.
\<close>

theorem rejection_order:
  "ndim (squeeze scale) = length (filter (\<lambda>d. d \<noteq> 1) (shape scale)) \<and>
   (device data \<noteq> device scale \<longrightarrow>
      QTensor_call qt data scale rg = Inl AssertionError) \<and>
   (device data = device scale \<and> 1 < ndim (squeeze scale) \<longrightarrow>
      QTensor_call qt data scale rg = Inl (ValueError multi_axis_msg)) \<and>
   (device data = device scale \<and> 0 < ndim scale \<and> ndim (squeeze scale) \<le> 1 \<and>
      ndim scale \<noteq> ndim data \<longrightarrow>
      QTensor_call qt data scale rg = Inl (ValueError not_broadcastable_msg)) \<and>
   (1 < ndim (squeeze scale) \<longrightarrow>
      quantize h data qt (Some scale) = Inl (ValueError quantize_multi_axis_msg)) \<and>
   (0 < ndim scale \<and> ndim (squeeze scale) \<le> 1 \<and> ndim scale \<noteq> ndim data \<longrightarrow>
      quantize h data qt (Some scale) = Inl (ValueError quantize_not_broadcastable_msg))"
proof (intro conjI impI)
  show "ndim (squeeze scale) = length (filter (\<lambda>d. d \<noteq> 1) (shape scale))"
    by (rule ndim_squeeze)
next
  assume "device data \<noteq> device scale"
  then show "QTensor_call qt data scale rg = Inl AssertionError" by (rule QTensor_call_device)
next
  assume "device data = device scale \<and> 1 < ndim (squeeze scale)"
  then show "QTensor_call qt data scale rg = Inl (ValueError multi_axis_msg)"
    by (simp add: QTensor_call_same_device QTensor_init_multi_axis)
next
  assume "device data = device scale \<and> 0 < ndim scale \<and> ndim (squeeze scale) \<le> 1 \<and>
      ndim scale \<noteq> ndim data"
  then show "QTensor_call qt data scale rg = Inl (ValueError not_broadcastable_msg)"
    by (simp add: QTensor_call_same_device QTensor_init_not_broadcastable)
next
  assume "1 < ndim (squeeze scale)"
  then show "quantize h data qt (Some scale) = Inl (ValueError quantize_multi_axis_msg)"
    by (rule quantize_multi_axis)
next
  assume "0 < ndim scale \<and> ndim (squeeze scale) \<le> 1 \<and> ndim scale \<noteq> ndim data"
  then show "quantize h data qt (Some scale) = Inl (ValueError quantize_not_broadcastable_msg)"
    by (simp add: quantize_not_broadcastable)
qed

theorem rejection_order_witness:
  "device example_vector \<noteq> device example_scale_matrix_cuda \<and>
   QTensor_call qint8 example_vector example_scale_matrix_cuda False = Inl AssertionError \<and>
   device example_vector = device example_scale_matrix \<and>
   1 < ndim (squeeze example_scale_matrix) \<and>
   QTensor_call qint8 example_vector example_scale_matrix False =
     Inl (ValueError multi_axis_msg) \<and>
   quantize example_env example_vector qint8 (Some example_scale_matrix) =
     Inl (ValueError quantize_multi_axis_msg) \<and>
   device example_vector = device example_scale_channel \<and>
   0 < ndim example_scale_channel \<and> ndim (squeeze example_scale_channel) \<le> 1 \<and>
   ndim example_scale_channel \<noteq> ndim example_vector \<and>
   QTensor_call qint8 example_vector example_scale_channel False =
     Inl (ValueError not_broadcastable_msg) \<and>
   quantize example_env example_vector qint8 (Some example_scale_channel) =
     Inl (ValueError quantize_not_broadcastable_msg)"
proof -
  have a: "device example_vector \<noteq> device example_scale_matrix_cuda"
    by (simp add: example_defs)
  have b: "device example_vector = device example_scale_matrix"
    "1 < ndim (squeeze example_scale_matrix)"
    by (simp_all add: example_defs)
  have c: "device example_vector = device example_scale_channel"
    "0 < ndim example_scale_channel" "ndim (squeeze example_scale_channel) \<le> 1"
    "ndim example_scale_channel \<noteq> ndim example_vector"
    by (simp_all add: example_defs)
  note A = rejection_order [where data = example_vector and scale = example_scale_matrix_cuda
      and qt = qint8 and rg = False and h = example_env]
  note B = rejection_order [where data = example_vector and scale = example_scale_matrix
      and qt = qint8 and rg = False and h = example_env]
  note C = rejection_order [where data = example_vector and scale = example_scale_channel
      and qt = qint8 and rg = False and h = example_env]
  from A a have A': "QTensor_call qint8 example_vector example_scale_matrix_cuda False =
      Inl AssertionError" by blast
  from B b have B': "QTensor_call qint8 example_vector example_scale_matrix False =
     Inl (ValueError multi_axis_msg)"
    "quantize example_env example_vector qint8 (Some example_scale_matrix) =
     Inl (ValueError quantize_multi_axis_msg)" by blast+
  from C c have C': "QTensor_call qint8 example_vector example_scale_channel False =
     Inl (ValueError not_broadcastable_msg)"
    "quantize example_env example_vector qint8 (Some example_scale_channel) =
     Inl (ValueError quantize_not_broadcastable_msg)" by blast+
  show ?thesis
    apply (intro conjI)
    apply (rule a b c A' B' C')+
    done
qed

text \<open>
  C5 as stated fails where two of its cases meet. A scale of shape (2, 3) against data of
  rank 1 is a non-scalar scale whose rank differs from the rank of data, and the error is
  the multi-axis one, at construction and in quantize; the same scale on another device
  has two non-unit dimensions, and construction fails the device assertion instead.
\<close>

theorem rejection_counterexample:
  "0 < ndim example_scale_matrix \<and> ndim example_scale_matrix \<noteq> ndim example_vector \<and>
   device example_vector = device example_scale_matrix \<and>
   QTensor_call qint8 example_vector example_scale_matrix False =
     Inl (ValueError multi_axis_msg) \<and>
   QTensor_call qint8 example_vector example_scale_matrix False \<noteq>
     Inl (ValueError not_broadcastable_msg) \<and>
   quantize example_env example_vector qint8 (Some example_scale_matrix) =
     Inl (ValueError quantize_multi_axis_msg) \<and>
   quantize example_env example_vector qint8 (Some example_scale_matrix) \<noteq>
     Inl (ValueError quantize_not_broadcastable_msg) \<and>
   1 < ndim (squeeze example_scale_matrix_cuda) \<and>
   QTensor_call qint8 example_vector example_scale_matrix_cuda False = Inl AssertionError \<and>
   QTensor_call qint8 example_vector example_scale_matrix_cuda False \<noteq>
     Inl (ValueError multi_axis_msg)"
  by (simp add: QTensor_call_def QTensor_new_def QTensor_init_def quantize_def
      Quantizer_forward_def example_defs multi_axis_msg_def not_broadcastable_msg_def
      quantize_multi_axis_msg_def quantize_not_broadcastable_msg_def)

section \<open>Quantize and dequantize\<close>

lemma quantize_None:
  "quantize h base qt None =
     bind_err (absmax_scale h base qt None) (quantize_transform_spec h base qt)"
  by (simp add: quantize_def Quantizer_forward_def quantize_transform_spec_def bind_err_def
      Let_def split: sum.splits)

lemma quantize_Some:
  assumes "scale_accepted base s"
  shows "quantize h base qt (Some s) = quantize_transform_spec h base qt s"
proof -
  from assms have "(if 0 < ndim s then
                  if 1 < ndim (squeeze s) then Inl (ValueError quantize_multi_axis_msg)
                  else if ndim s \<noteq> ndim base then Inl (ValueError quantize_not_broadcastable_msg)
                  else Inr s
                else Inr s) = Inr s"
    by (auto simp: scale_accepted_def)
  then show ?thesis
    by (simp add: quantize_def Quantizer_forward_def quantize_transform_spec_def bind_err_def
        Let_def split: sum.splits)
qed

text \<open>
  C1. On a resolved scale the forward transform of quantize divides base by scale, rounds
  when qtype is not floating-point, clamps into the range that \<open>dtype_info\<close> gives for the
  storage type of qtype, casts to that type and returns the QTensor constructed from
  qtype, the data and the scale; an unspecified scale is first resolved as
  \<open>absmax_scale\<close> of base without an axis. A supplied scale is resolved when it is a
  scalar or has one axis and the rank of base.
\<close>

theorem quantize_forward_steps:
  "quantize h base qt None =
     bind_err (absmax_scale h base qt None) (quantize_transform_spec h base qt) \<and>
   (scale_accepted base s \<longrightarrow>
      quantize h base qt (Some s) = quantize_transform_spec h base qt s)"
  using quantize_None quantize_Some by blast

theorem quantize_forward_steps_witness:
  "scale_accepted example_vector example_scale_scalar \<and>
   quantize example_env example_vector qint8 (Some example_scale_scalar) =
     quantize_transform_spec example_env example_vector qint8 example_scale_scalar \<and>
   quantize_transform_spec example_env example_vector qint8 example_scale_scalar =
     Inr example_quantized \<and>
   absmax_scale example_env example_vector qint8 None = Inr example_scale_scalar \<and>
   quantize example_env example_vector qint8 None = Inr example_quantized"
proof -
  have a: "scale_accepted example_vector example_scale_scalar"
    by (simp add: scale_accepted_def example_defs)
  note T = quantize_forward_steps [where h = example_env and base = example_vector
      and qt = qint8 and s = example_scale_scalar]
  from T a have b: "quantize example_env example_vector qint8 (Some example_scale_scalar) =
     quantize_transform_spec example_env example_vector qint8 example_scale_scalar" by blast
  have c: "quantize_transform_spec example_env example_vector qint8 example_scale_scalar =
     Inr example_quantized" by code_simp
  have d: "absmax_scale example_env example_vector qint8 None = Inr example_scale_scalar"
    by code_simp
  from T have "quantize example_env example_vector qint8 None =
     bind_err (absmax_scale example_env example_vector qint8 None)
       (quantize_transform_spec example_env example_vector qint8)" by blast
  with c d have e: "quantize example_env example_vector qint8 None = Inr example_quantized"
    by (simp add: bind_err_def)
  from a b c d e show ?thesis by blast
qed

text \<open>
  C6. For a floating-point qtype dequantize casts the data to the dtype of the scale and
  multiplies the scale by it; otherwise it multiplies the scale by the data as they are.
  Nothing else is checked: every error of dequantize is one that the cast or the
  multiplication of the host raised.
\<close>

theorem dequantize_steps:
  "(is_floating_point (q_qtype q) \<longrightarrow>
      dequantize h q =
        bind_err (torch_to h (q_data q) (dtype (q_scale q))) (\<lambda>d. torch_mul h (q_scale q) d)) \<and>
   (\<not> is_floating_point (q_qtype q) \<longrightarrow>
      dequantize h q = torch_mul h (q_scale q) (q_data q)) \<and>
   (dequantize h q = Inl e \<longrightarrow>
      torch_to h (q_data q) (dtype (q_scale q)) = Inl e \<or>
      (\<exists>d. torch_mul h (q_scale q) d = Inl e))"
  by (auto simp: dequantize_def Dequantizer_forward_def bind_err_def split: sum.splits)

theorem dequantize_steps_witness:
  "is_floating_point (q_qtype example_quantized_float) \<and>
   dequantize example_env example_quantized_float = Inr example_vector \<and>
   \<not> is_floating_point (q_qtype example_quantized) \<and>
   dequantize example_env example_quantized = Inr example_vector \<and>
   torch_mul example_env (q_scale example_quantized) (q_data example_quantized) =
     Inr example_vector \<and>
   QTensor_call qint8 example_data_matrix example_scale_row4 False =
     Inr example_quantized_mismatch \<and>
   dequantize example_env example_quantized_mismatch =
     Inl (RuntimeError ''The size of tensor a must match the size of tensor b'') \<and>
   torch_mul example_env example_scale_row4 example_data_matrix =
     Inl (RuntimeError ''The size of tensor a must match the size of tensor b'')"
proof -
  have f: "is_floating_point (q_qtype example_quantized_float)"
    by (simp add: example_quantized_float_def qfloat8_e4m3fn_def)
  have i: "\<not> is_floating_point (q_qtype example_quantized)"
    by (simp add: example_quantized_def qint8_def)
  have i': "\<not> is_floating_point (q_qtype example_quantized_mismatch)"
    by (simp add: example_quantized_mismatch_def qint8_def)
  have f1: "dequantize example_env example_quantized_float = Inr example_vector" by code_simp
  have m: "torch_mul example_env (q_scale example_quantized) (q_data example_quantized) =
     Inr example_vector" by code_simp
  from dequantize_steps [where q = example_quantized and h = example_env] i m
  have i1: "dequantize example_env example_quantized = Inr example_vector" by simp
  have c: "QTensor_call qint8 example_data_matrix example_scale_row4 False =
     Inr example_quantized_mismatch" by code_simp
  have e: "torch_mul example_env example_scale_row4 example_data_matrix =
     Inl (RuntimeError ''The size of tensor a must match the size of tensor b'')" by code_simp
  from dequantize_steps [where q = example_quantized_mismatch and h = example_env] i' e
  have e1: "dequantize example_env example_quantized_mismatch =
     Inl (RuntimeError ''The size of tensor a must match the size of tensor b'')"
    by (simp add: example_quantized_mismatch_def)
  show ?thesis
    apply (intro conjI)
    apply (rule f f1 i i1 m c e1 e)+
    done
qed

section \<open>The fallback\<close>

text \<open>What \<open>tree_map_only\<close> does to a leaf when the function succeeds on it.\<close>

lemma replace_leaf_simps:
  "replace_leaf h (Plain t) = Plain t"
  "replace_leaf h (Other v) = Other v"
  "dequantize h q = Inr r \<Longrightarrow> replace_leaf h (QT q) = Plain r"
  by (simp_all add: replace_leaf_def)

lemma tree_map_only_success:
  fixes t :: "('e, 'o) arg pytree" and ts :: "('e, 'o) arg pytree list"
    and kvs :: "(string \<times> ('e, 'o) arg pytree) list"
  shows "(\<forall>q. QT q \<in> set_pytree t \<longrightarrow> (\<exists>r. dequantize h q = Inr r)) \<Longrightarrow>
     tree_map_only (dequantize h) t = Inr (map_pytree (replace_leaf h) t)"
  and "(\<forall>t\<in>set ts. \<forall>q. QT q \<in> set_pytree t \<longrightarrow> (\<exists>r. dequantize h q = Inr r)) \<Longrightarrow>
     tree_map_list (dequantize h) ts = Inr (map (map_pytree (replace_leaf h)) ts)"
  and "(\<forall>t\<in>snd ` set kvs. \<forall>q. QT q \<in> set_pytree t \<longrightarrow> (\<exists>r. dequantize h q = Inr r)) \<Longrightarrow>
     tree_map_items (dequantize h) kvs =
       Inr (map (\<lambda>(k, t). (k, map_pytree (replace_leaf h) t)) kvs)"
proof (induction "dequantize h" t and "dequantize h" ts and "dequantize h" kvs
    rule: tree_map_only_tree_map_list_tree_map_items.induct)
  case (1 q)
  then obtain r where "dequantize h q = Inr r" by auto
  then show ?case by (simp add: replace_leaf_def)
next
  case (2 t)
  show ?case by (simp add: replace_leaf_def)
next
  case (3 v)
  show ?case by (simp add: replace_leaf_def)
next
  case (4 ts)
  then have "tree_map_list (dequantize h) ts = Inr (map (map_pytree (replace_leaf h)) ts)"
    by auto
  then show ?case by simp
next
  case (5 ts)
  then have "tree_map_list (dequantize h) ts = Inr (map (map_pytree (replace_leaf h)) ts)"
    by auto
  then show ?case by simp
next
  case (6 kvs)
  then have "tree_map_items (dequantize h) kvs =
       Inr (map (\<lambda>(k, t). (k, map_pytree (replace_leaf h) t)) kvs)"
    by fastforce
  then show ?case by (simp add: map_prod_def id_def case_prod_beta)
next
  case 7
  show ?case by simp
next
  case (8 t ts)
  then have a: "tree_map_only (dequantize h) t = Inr (map_pytree (replace_leaf h) t)" by auto
  with 8 have "tree_map_list (dequantize h) ts = Inr (map (map_pytree (replace_leaf h)) ts)"
    by auto
  with a show ?case by simp
next
  case 9
  show ?case by simp
next
  case (10 k t kvs)
  then have a: "tree_map_only (dequantize h) t = Inr (map_pytree (replace_leaf h) t)" by auto
  with 10 have "tree_map_items (dequantize h) kvs =
       Inr (map (\<lambda>(k, t). (k, map_pytree (replace_leaf h) t)) kvs)"
    by auto
  with a show ?case by simp
qed

lemma no_QT_after:
  assumes "\<forall>q. QT q \<in> set_pytree t \<longrightarrow> (\<exists>r. dequantize h q = Inr r)"
  shows "\<forall>x\<in>set_pytree (map_pytree (replace_leaf h) t). \<not> is_QT x"
proof
  fix x assume "x \<in> set_pytree (map_pytree (replace_leaf h) t)"
  then obtain y where y: "y \<in> set_pytree t" "x = replace_leaf h y"
    by (auto simp: pytree.set_map)
  show "\<not> is_QT x"
  proof (cases y)
    case (QT q)
    with y(1) assms obtain r where "dequantize h q = Inr r" by blast
    with QT y(2) show ?thesis by (simp add: replace_leaf_def is_QT_def)
  next
    case (Plain t)
    with y(2) show ?thesis by (simp add: replace_leaf_def is_QT_def)
  next
    case (Other v)
    with y(2) show ?thesis by (simp add: replace_leaf_def is_QT_def)
  qed
qed

lemma qfallback_success:
  assumes "\<forall>t\<in>set args \<union> snd ` set kwargs.
             \<forall>q. QT q \<in> set_pytree t \<longrightarrow> (\<exists>r. dequantize h q = Inr r)"
  shows "qfallback h callable args kwargs =
        callable (map (map_pytree (replace_leaf h)) args)
                 (map (\<lambda>(k, t). (k, map_pytree (replace_leaf h) t)) kwargs)"
proof -
  from assms have a: "tree_map_list (dequantize h) args =
      Inr (map (map_pytree (replace_leaf h)) args)"
    by (intro tree_map_only_success(2)) blast
  from assms have k: "tree_map_items (dequantize h) kwargs =
       Inr (map (\<lambda>(k, t). (k, map_pytree (replace_leaf h) t)) kwargs)"
    by (intro tree_map_only_success(3)) blast
  show ?thesis by (simp add: qfallback_def a k)
qed

lemma tree_map_only_failure:
  fixes t :: "('e, 'o) arg pytree" and ts :: "('e, 'o) arg pytree list"
    and kvs :: "(string \<times> ('e, 'o) arg pytree) list"
  shows "QT q \<in> set_pytree t \<Longrightarrow> f q = Inl e \<Longrightarrow> \<exists>e'. tree_map_only f t = Inl e'"
  and "t' \<in> set ts \<Longrightarrow> QT q \<in> set_pytree t' \<Longrightarrow> f q = Inl e \<Longrightarrow>
         \<exists>e'. tree_map_list f ts = Inl e'"
  and "t' \<in> snd ` set kvs \<Longrightarrow> QT q \<in> set_pytree t' \<Longrightarrow> f q = Inl e \<Longrightarrow>
         \<exists>e'. tree_map_items f kvs = Inl e'"
proof (induction f t and f ts and f kvs arbitrary: and t' and t'
    rule: tree_map_only_tree_map_list_tree_map_items.induct)
  case (1 f q')
  then show ?case by simp
next
  case (2 f t)
  then show ?case by simp
next
  case (3 f v)
  then show ?case by simp
next
  case (4 f ts)
  then obtain t' where "t' \<in> set ts" "QT q \<in> set_pytree t'" by auto
  with 4 obtain e' where "tree_map_list f ts = Inl e'" by blast
  then show ?case by simp
next
  case (5 f ts)
  then obtain t' where "t' \<in> set ts" "QT q \<in> set_pytree t'" by auto
  with 5 obtain e' where "tree_map_list f ts = Inl e'" by blast
  then show ?case by simp
next
  case (6 f kvs)
  then obtain t' where "t' \<in> snd ` set kvs" "QT q \<in> set_pytree t'" by force
  with 6 obtain e' where "tree_map_items f kvs = Inl e'" by blast
  then show ?case by simp
next
  case (7 f)
  then show ?case by simp
next
  case (8 f t ts)
  show ?case
  proof (cases "tree_map_only f t")
    case (Inl a)
    then show ?thesis by simp
  next
    case (Inr b)
    with 8 have "t' \<noteq> t" by auto
    with 8 have "t' \<in> set ts" by simp
    with 8 Inr obtain e' where "tree_map_list f ts = Inl e'" by blast
    with Inr show ?thesis by simp
  qed
next
  case (9 f)
  then show ?case by simp
next
  case (10 f k t kvs)
  show ?case
  proof (cases "tree_map_only f t")
    case (Inl a)
    then show ?thesis by simp
  next
    case (Inr b)
    with 10 have "t' \<noteq> t" by auto
    with 10 have "t' \<in> snd ` set kvs" by auto
    with 10 Inr obtain e' where "tree_map_items f kvs = Inl e'" by blast
    with Inr show ?thesis by simp
  qed
qed

lemma qfallback_failure:
  assumes "t \<in> set args \<union> snd ` set kwargs" "QT q \<in> set_pytree t" "dequantize h q = Inl e"
  shows "\<exists>e'. qfallback h callable args kwargs = Inl e'"
proof (cases "tree_map_list (dequantize h) args")
  case (Inl a)
  then show ?thesis by (simp add: qfallback_def)
next
  case (Inr b)
  have "t \<notin> set args"
  proof
    assume "t \<in> set args"
    from tree_map_only_failure(2) [where f = "dequantize h", OF this assms(2,3)] Inr
    show False by simp
  qed
  with assms(1) have "t \<in> snd ` set kwargs" by simp
  from tree_map_only_failure(3) [where f = "dequantize h", OF this assms(2,3)]
  obtain e' where "tree_map_items (dequantize h) kwargs = Inl e'" by blast
  with Inr show ?thesis by (simp add: qfallback_def)
qed

text \<open>
  C8. The fallback replaces every QTensor in the tree of positional and keyword arguments
  by its dequantized tensor, leaves every other argument as it is, and returns what the
  callable returns on the transformed arguments. When a dequantization raises, the
  fallback raises and the callable is not called (\<open>qfallback_failure\<close>).
\<close>

theorem qfallback_dequantizes:
  fixes args :: "('e, 'o) arg pytree list" and kwargs :: "(string \<times> ('e, 'o) arg pytree) list"
    and v :: 'o
  shows "replace_leaf h (Plain p :: ('e, 'o) arg) = Plain p \<and>
     replace_leaf h (Other v :: ('e, 'o) arg) = Other v \<and>
     (dequantize h q = Inr r \<longrightarrow> replace_leaf h (QT q :: ('e, 'o) arg) = Plain r) \<and>
     ((\<forall>t\<in>set args \<union> snd ` set kwargs.
          \<forall>q. QT q \<in> set_pytree t \<longrightarrow> (\<exists>r. dequantize h q = Inr r)) \<longrightarrow>
        qfallback h callable args kwargs =
          callable (map (map_pytree (replace_leaf h)) args)
                   (map (\<lambda>(k, t). (k, map_pytree (replace_leaf h) t)) kwargs) \<and>
        (\<forall>t\<in>set args \<union> snd ` set kwargs.
           \<forall>x\<in>set_pytree (map_pytree (replace_leaf h) t). \<not> is_QT x))"
proof (intro conjI impI)
  show "replace_leaf h (Plain p :: ('e, 'o) arg) = Plain p" by (rule replace_leaf_simps)
  show "replace_leaf h (Other v :: ('e, 'o) arg) = Other v" by (rule replace_leaf_simps)
  show "replace_leaf h (QT q :: ('e, 'o) arg) = Plain r" if "dequantize h q = Inr r"
    using that by (rule replace_leaf_simps)
next
  assume ok: "\<forall>t\<in>set args \<union> snd ` set kwargs.
          \<forall>q. QT q \<in> set_pytree t \<longrightarrow> (\<exists>r. dequantize h q = Inr r)"
  then show "qfallback h callable args kwargs =
          callable (map (map_pytree (replace_leaf h)) args)
                   (map (\<lambda>(k, t). (k, map_pytree (replace_leaf h) t)) kwargs)"
    by (rule qfallback_success)
  show "\<forall>t\<in>set args \<union> snd ` set kwargs.
           \<forall>x\<in>set_pytree (map_pytree (replace_leaf h) t). \<not> is_QT x"
  proof
    fix t assume "t \<in> set args \<union> snd ` set kwargs"
    with ok have "\<forall>q. QT q \<in> set_pytree t \<longrightarrow> (\<exists>r. dequantize h q = Inr r)" by blast
    then show "\<forall>x\<in>set_pytree (map_pytree (replace_leaf h) t). \<not> is_QT x"
      by (rule no_QT_after)
  qed
qed

theorem qfallback_dequantizes_witness:
  "dequantize example_env example_quantized = Inr example_vector \<and>
   dequantize example_env example_quantized_float = Inr example_vector \<and>
   replace_leaf example_env (QT example_quantized :: (rat, nat) arg) = Plain example_vector \<and>
   qfallback example_env example_callable example_args example_kwargs =
     Inr ([Leaf (Plain example_vector), PList [Leaf (Other 7), Leaf (Plain example_vector)]],
          [(''other'', PTuple [Leaf (Plain example_vector)])])"
proof -
  have d1: "dequantize example_env example_quantized = Inr example_vector" by code_simp
  have d2: "dequantize example_env example_quantized_float = Inr example_vector" by code_simp
  have ok: "\<forall>t\<in>set example_args \<union> snd ` set example_kwargs.
          \<forall>q. QT q \<in> set_pytree t \<longrightarrow> (\<exists>r. dequantize example_env q = Inr r)"
    by (auto simp: example_args_def example_kwargs_def d1 d2)
  note T = qfallback_dequantizes [where h = example_env and args = example_args
      and kwargs = example_kwargs and callable = example_callable
      and q = example_quantized and r = example_vector]
  from T d1 have r1: "replace_leaf example_env (QT example_quantized :: (rat, nat) arg) =
      Plain example_vector" by blast
  have r2: "replace_leaf example_env (QT example_quantized_float :: (rat, nat) arg) =
      Plain example_vector" using d2 by (rule replace_leaf_simps)
  from T ok have "qfallback example_env example_callable example_args example_kwargs =
          example_callable (map (map_pytree (replace_leaf example_env)) example_args)
            (map (\<lambda>(k, t). (k, map_pytree (replace_leaf example_env) t)) example_kwargs)"
    by blast
  also have "\<dots> = Inr ([Leaf (Plain example_vector),
                          PList [Leaf (Other 7), Leaf (Plain example_vector)]],
          [(''other'', PTuple [Leaf (Plain example_vector)])])"
    by (simp add: example_callable_def example_args_def example_kwargs_def r1 r2
        replace_leaf_simps)
  finally show ?thesis using d1 d2 r1 by blast
qed

section \<open>The round trip in exact arithmetic\<close>




















text \<open>
  The signed storage type is needed: with the range [0, 255] the clamp takes every
  negative element to 0.
\<close>

lemma roundtrip_unsigned_example:
  "\<not> roundtrip_bound example_env (contiguous [2] [- 5, 5] Float32 CPU) example_unsigned_qtype"
  by code_simp

end
